theory Spec2Isabelle
  imports Complex_Main "HOL-Library.Log_Nat"
begin

section \<open>The ai-chat edge function\<close>

text \<open>
  A shallow embedding of \<^verbatim>\<open>supabase/functions/ai-chat/index.ts\<close> together with the
  \<^verbatim>\<open>ai_usage\<close> table of migration 006 and the \<^verbatim>\<open>conversation_messages\<close> table of
  migration 002. The handler is one asynchronous function; the model threads an explicit
  \<open>world\<close> (the two tables, the error console, the calls made to the provider) through
  it, and takes everything the handler reads from outside (environment variables, the
  identity service, the clock, storage failures, the provider's answer) from a record
  \<open>env\<close>.
\<close>

subsection \<open>JavaScript values\<close>

text \<open>
  Values that reach the handler as parsed JSON. \<open>JUndefined\<close> is the value of an absent
  property. Numbers of a request body are only tested for truthiness.
\<close>

datatype jsval =
    JUndefined
  | JNull
  | JBool bool
  | JNum rat
  | JStr string
  | JArr "jsval list"
  | JObj "(string \<times> jsval) list"

text \<open>ToBoolean, as used by \<^verbatim>\<open>!x\<close>, \<^verbatim>\<open>x || y\<close> and \<^verbatim>\<open>if (x)\<close>.\<close>

fun truthy :: "jsval \<Rightarrow> bool" where
  "truthy JUndefined = False"
| "truthy JNull = False"
| "truthy (JBool b) = b"
| "truthy (JNum n) = (n \<noteq> 0)"
| "truthy (JStr s) = (s \<noteq> [])"
| "truthy (JArr xs) = True"
| "truthy (JObj kvs) = True"

fun isArray :: "jsval \<Rightarrow> bool" where
  "isArray (JArr xs) = True"
| "isArray v = False"

text \<open>
  Property access \<^verbatim>\<open>v.k\<close>: a TypeError on \<^verbatim>\<open>undefined\<close> and \<^verbatim>\<open>null\<close>, the last
  binding of the key in an object (as \<^verbatim>\<open>JSON.parse\<close> keeps it), \<^verbatim>\<open>undefined\<close>
  otherwise. The left summand carries the message of the thrown error.
\<close>

fun js_get :: "jsval \<Rightarrow> string \<Rightarrow> string + jsval" where
  "js_get JUndefined k = Inl (''Cannot read properties of undefined (reading '' @ k @ '')'')"
| "js_get JNull k = Inl (''Cannot read properties of null (reading '' @ k @ '')'')"
| "js_get (JObj kvs) k = Inr (case map_of (rev kvs) k of None \<Rightarrow> JUndefined | Some v \<Rightarrow> v)"
| "js_get v k = Inr JUndefined"

text \<open>Optional chaining \<^verbatim>\<open>v?.k\<close>.\<close>

fun js_get_opt :: "jsval \<Rightarrow> string \<Rightarrow> jsval" where
  "js_get_opt JUndefined k = JUndefined"
| "js_get_opt JNull k = JUndefined"
| "js_get_opt (JObj kvs) k = (case map_of (rev kvs) k of None \<Rightarrow> JUndefined | Some v \<Rightarrow> v)"
| "js_get_opt v k = JUndefined"

text \<open>
  Numbers computed by the handler for \<^verbatim>\<open>retryAfter\<close>: integers (all below \<open>2^53\<close>,
  where doubles are exact) and \<^verbatim>\<open>NaN\<close>.
\<close>

datatype jsnum = Num int | NaN

fun js_minus :: "jsnum \<Rightarrow> jsnum \<Rightarrow> jsnum" where
  "js_minus (Num a) (Num b) = Num (a - b)"
| "js_minus a b = NaN"

text \<open>\<^verbatim>\<open>Math.floor(a / d)\<close> for a positive integer constant \<open>d\<close>.\<close>

fun js_floor_div :: "jsnum \<Rightarrow> int \<Rightarrow> jsnum" where
  "js_floor_div (Num a) d = Num (a div d)"
| "js_floor_div NaN d = NaN"

text \<open>\<^verbatim>\<open>JSON.stringify\<close> writes \<^verbatim>\<open>NaN\<close> as \<^verbatim>\<open>null\<close>; \<open>None\<close> is JSON's null.\<close>

fun json_number :: "jsnum \<Rightarrow> int option" where
  "json_number (Num a) = Some a"
| "json_number NaN = None"

text \<open>
  \<^verbatim>\<open>new Date(x).getTime()\<close>: milliseconds for a timestamp (stored in microseconds),
  \<^verbatim>\<open>NaN\<close> for \<^verbatim>\<open>undefined\<close>.
\<close>

fun date_getTime :: "int option \<Rightarrow> jsnum" where
  "date_getTime None = NaN"
| "date_getTime (Some t) = Num (t div 1000)"

text \<open>\<^verbatim>\<open>s.replace(pat, "")\<close> with a string pattern: the first occurrence is removed.\<close>

fun remove_first :: "string \<Rightarrow> string \<Rightarrow> string" where
  "remove_first pat [] = []"
| "remove_first pat (c # cs) =
     (if take (length pat) (c # cs) = pat then drop (length pat) (c # cs)
      else c # remove_first pat cs)"

subsection \<open>Identifiers\<close>

text \<open>
  The id columns of the migrations have the type \<^verbatim>\<open>UUID\<close>. A value of that type is
  kept in the form the database prints: 32 lower-case hexadecimal digits in groups of 8, 4,
  4, 4 and 12. \<open>uuid_in\<close> is the input syntax of the type: an optional pair of braces, 16
  bytes of two hexadecimal digits in either case, an optional hyphen after every second
  byte; \<open>None\<close> is the syntax error that makes a statement fail. Two texts name the same
  identifier when \<open>uuid_in\<close> gives the same value.
\<close>

type_synonym uuid = string

definition isxdigit :: "char \<Rightarrow> bool" where
  "isxdigit c = (c \<in> set ''0123456789abcdefABCDEF'')"

definition tolower :: "char \<Rightarrow> char" where
  "tolower c =
     (if c = CHR ''A'' then CHR ''a'' else if c = CHR ''B'' then CHR ''b''
      else if c = CHR ''C'' then CHR ''c'' else if c = CHR ''D'' then CHR ''d''
      else if c = CHR ''E'' then CHR ''e'' else if c = CHR ''F'' then CHR ''f'' else c)"

text \<open>The bytes with the indices \<open>is\<close>, read from \<open>src\<close>: the digits and the rest of the text.\<close>

fun uuid_bytes :: "nat list \<Rightarrow> string \<Rightarrow> (string \<times> string) option" where
  "uuid_bytes [] src = Some ([], src)"
| "uuid_bytes (i # is) (a # b # src) =
     (if isxdigit a \<and> isxdigit b
      then (case uuid_bytes is
                   (if odd i \<and> i < 15 \<and> take 1 src = ''-'' then drop 1 src else src) of
              None \<Rightarrow> None
            | Some (digits, rest) \<Rightarrow> Some (tolower a # tolower b # digits, rest))
      else None)"
| "uuid_bytes (i # is) src = None"

definition uuid_out :: "string \<Rightarrow> uuid" where
  "uuid_out digits =
     take 8 digits @ ''-'' @ take 4 (drop 8 digits) @ ''-'' @ take 4 (drop 12 digits) @ ''-''
       @ take 4 (drop 16 digits) @ ''-'' @ drop 20 digits"

definition uuid_in :: "string \<Rightarrow> uuid option" where
  "uuid_in s =
     (let braces = (take 1 s = ''{'');
          src = (if braces then drop 1 s else s)
      in case uuid_bytes [0, 1, 2, 3, 4, 5, 6, 7, 8, 9, 10, 11, 12, 13, 14, 15] src of
           None \<Rightarrow> None
         | Some (digits, rest) \<Rightarrow>
             if rest = (if braces then ''}'' else []) then Some (uuid_out digits) else None)"

subsection \<open>IEEE binary64 arithmetic\<close>

text \<open>
  The cost is computed in JavaScript numbers. A double is modelled by the rational it
  denotes; \<open>fl\<close> rounds a rational to the nearest double, ties to even, with a 53-bit
  significand. Subnormals and overflow are left out: the values the cost computation
  produces from a token count below \<open>2 ^ 53\<close> lie far inside the normal range.
\<close>

definition ilog2 :: "rat \<Rightarrow> int" where
  "ilog2 x = (if 1 \<le> x then bitlen \<lfloor>x\<rfloor> - 1 else - bitlen (\<lceil>1 / x\<rceil> - 1))"

definition round_half_even :: "rat \<Rightarrow> int" where
  "round_half_even y =
     (let f = \<lfloor>y\<rfloor>; r = y - of_int f
      in if r < 1 / 2 then f else if 1 / 2 < r then f + 1 else if even f then f else f + 1)"

definition fl :: "rat \<Rightarrow> rat" where
  "fl x = (if x = 0 then 0
           else let u = 2 powi (ilog2 \<bar>x\<bar> - 52) in of_int (round_half_even (x / u)) * u)"

text \<open>
  Line 191: \<^verbatim>\<open>const costEstimate = (tokensUsed / 1000) * 0.002\<close>. The literal
  \<^verbatim>\<open>0.002\<close> is the double nearest to \<open>2/1000\<close>; the quotient and the product are each
  rounded.
\<close>

definition costEstimate :: "int \<Rightarrow> rat" where
  "costEstimate tokensUsed = fl (fl (fl (of_int tokensUsed) / 1000) * fl (2 / 1000))"

text \<open>The sum of two doubles, as \<^verbatim>\<open>a + b\<close> computes it.\<close>

definition js_add :: "rat \<Rightarrow> rat \<Rightarrow> rat" where
  "js_add a b = fl (a + b)"

text \<open>\<open>a\<close> is \<open>x\<close> up to the relative error \<open>r\<close>.\<close>

definition approximates :: "rat \<Rightarrow> rat \<Rightarrow> rat \<Rightarrow> bool" where
  "approximates a x r = (\<bar>a - x\<bar> \<le> r * \<bar>x\<bar>)"

subsection \<open>Tables\<close>

text \<open>
  A row of \<^verbatim>\<open>ai_usage\<close> (migration 006) and of \<^verbatim>\<open>conversation_messages\<close>
  (migration 002). \<^verbatim>\<open>created_at\<close> is a \<^verbatim>\<open>TIMESTAMPTZ\<close>: microseconds since the epoch.
  \<^verbatim>\<open>cost_estimate\<close> holds the value the handler sends. Of \<^verbatim>\<open>profiles\<close> (migration 001)
  only the ids matter here, of \<^verbatim>\<open>conversations\<close> (migration 002) the id and the two
  timestamps that the trigger \<^verbatim>\<open>update_conversation_on_message\<close> sets.
\<close>

record conversation_row =
  c_id :: uuid
  c_last_message_at :: int
  c_updated_at :: int

record usage_row =
  u_id :: uuid
  u_workspace_id :: uuid
  u_user_id :: "uuid option"
  u_conversation_id :: "uuid option"
  u_token_count :: int
  u_prompt_tokens :: int
  u_completion_tokens :: int
  u_cost_estimate :: rat
  u_model :: string
  u_created_at :: int

record message_row =
  m_id :: uuid
  m_conversation_id :: uuid
  m_role :: string
  m_content :: string
  m_tokens_used :: int
  m_model :: string
  m_created_at :: int

text \<open>
  What a \<^verbatim>\<open>select\<close> returns for a row: only the selected columns are properties of the
  object, every other property reads \<^verbatim>\<open>undefined\<close> (\<open>None\<close>).
\<close>

record selected_row =
  sel_id :: "uuid option"
  sel_token_count :: "int option"
  sel_created_at :: "int option"

definition select_id :: "usage_row \<Rightarrow> selected_row" where
  "select_id r = \<lparr>sel_id = Some (u_id r), sel_token_count = None, sel_created_at = None\<rparr>"

definition select_token_count :: "usage_row \<Rightarrow> selected_row" where
  "select_token_count r =
     \<lparr>sel_id = None, sel_token_count = Some (u_token_count r), sel_created_at = None\<rparr>"

subsection \<open>The world and what the handler reads from outside\<close>

record world =
  ai_usage :: "usage_row list"
  conversation_messages :: "message_row list"
  conversations :: "conversation_row list"
  profiles :: "uuid list"
  console_error :: "string list"
  openai_calls :: "jsval list"

record user =
  user_id :: string

text \<open>
  The body of a provider response with \<^verbatim>\<open>ok = true\<close>, as far as lines 186 to 202 read
  it: not JSON (\<^verbatim>\<open>json()\<close> throws), JSON on which \<^verbatim>\<open>data.choices[0].message.content\<close>
  or \<^verbatim>\<open>data.usage.total_tokens\<close> throws a TypeError, or a completion with a text and
  integer token counts. The strings are the messages of the thrown errors.
\<close>

record completion =
  content :: string
  prompt_tokens :: int
  completion_tokens :: int
  total_tokens :: int

datatype ok_body = OkNotJson string | OkMalformed string | Completion completion

text \<open>
  The outcome of \<^verbatim>\<open>fetch\<close>: it rejects (network failure), or answers with
  \<^verbatim>\<open>ok = false\<close>, a status and a body (\<open>Inl\<close> when \<^verbatim>\<open>json()\<close> throws), or answers
  with \<^verbatim>\<open>ok = true\<close>.
\<close>

datatype fetch_result =
    FetchRejects string
  | NotOk nat "string + jsval"
  | Ok ok_body

text \<open>
  \<open>now_rate\<close> and \<open>now_retry\<close> are the two readings of \<^verbatim>\<open>Date.now()\<close> (lines 90 and
  109), \<open>startOfMonth\<close> the instant lines 121 to 123 compute, all in milliseconds. A
  \<open>_fails\<close> flag says that storage answers the statement with an error. The new ids and
  timestamps are the column defaults the database fills in.
\<close>

record env =
  OPENAI_API_KEY :: "string option"
  getUser :: "string \<Rightarrow> user option"
  now_rate :: int
  now_retry :: int
  startOfMonth :: int
  rate_select_fails :: bool
  quota_select_fails :: bool
  openai :: fetch_result
  usage_insert_fails :: bool
  usage_new_id :: uuid
  usage_now :: int
  message_insert_fails :: bool
  message_new_id :: uuid
  message_now :: int

record request =
  req_method :: string
  Authorization :: "string option"
  json :: "string + jsval"

subsection \<open>Responses\<close>

record usage_snapshot =
  tokens :: int
  cost :: rat
  monthlyTotal :: int
  monthlyLimit :: int

text \<open>One constructor for each object literal the handler serialises.\<close>

datatype resp_body =
    Text string
  | ErrorOnly string
  | RateLimited string "int option"
  | QuotaExceeded string int int
  | OpenAIError string jsval
  | ChatReply string usage_snapshot
  | InternalError string string

record response =
  status :: nat
  body :: resp_body

text \<open>The keys of the JSON object in the body.\<close>

fun body_keys :: "resp_body \<Rightarrow> string list" where
  "body_keys (Text s) = []"
| "body_keys (ErrorOnly e) = [''error'']"
| "body_keys (RateLimited e r) = [''error'', ''retryAfter'']"
| "body_keys (QuotaExceeded e c l) = [''error'', ''usage'']"
| "body_keys (OpenAIError e d) = [''error'', ''details'']"
| "body_keys (ChatReply m u) = [''message'', ''usage'']"
| "body_keys (InternalError e m) = [''error'', ''message'']"

datatype outcome = Returned response | Threw string

text \<open>
  \<^verbatim>\<open>new Response(body, {status})\<close> with a body: a RangeError outside 200 to 599, a
  TypeError for a status that allows no body.
\<close>

definition new_Response :: "resp_body \<Rightarrow> nat \<Rightarrow> outcome" where
  "new_Response b s =
     (if s < 200 \<or> 599 < s then Threw ''The status provided is outside the range [200, 599]''
      else if s \<in> {204, 205, 304} then Threw ''Response with null body status cannot have body''
      else Returned \<lparr>status = s, body = b\<rparr>)"

definition log_error :: "string \<Rightarrow> world \<Rightarrow> world" where
  "log_error line w = w\<lparr>console_error := console_error w @ [line]\<rparr>"

subsection \<open>Storage statements\<close>

text \<open>
  Lines 91 to 95: the ids of the user's rows created at or after \<open>oneHourAgo\<close>
  (milliseconds), in table order; \<open>None\<close> when storage answers with an error
  (\<^verbatim>\<open>data\<close> is then \<^verbatim>\<open>null\<close>), as it does for a user id that is no \<^verbatim>\<open>UUID\<close>.
\<close>

definition rows_of_user_since :: "uuid \<Rightarrow> int \<Rightarrow> usage_row list \<Rightarrow> usage_row list" where
  "rows_of_user_since uid t rows =
     filter (\<lambda>r. u_user_id r = Some uid \<and> t * 1000 \<le> u_created_at r) rows"

definition select_recent_requests :: "env \<Rightarrow> world \<Rightarrow> string \<Rightarrow> int \<Rightarrow> selected_row list option" where
  "select_recent_requests E w userId oneHourAgo =
     (if rate_select_fails E then None
      else case uuid_in userId of
             None \<Rightarrow> None
           | Some uid \<Rightarrow> Some (map select_id (rows_of_user_since uid oneHourAgo (ai_usage w))))"

text \<open>
  Lines 125 to 129: the token counts of the workspace's rows created at or after
  \<open>startOfMonth\<close>. A \<open>workspaceId\<close> that is not a string, or a string that is no
  \<^verbatim>\<open>UUID\<close>, makes the statement fail; every spelling of a \<^verbatim>\<open>UUID\<close> selects the rows of
  that workspace.
\<close>

definition rows_of_workspace_since :: "uuid \<Rightarrow> int \<Rightarrow> usage_row list \<Rightarrow> usage_row list" where
  "rows_of_workspace_since ws t rows =
     filter (\<lambda>r. u_workspace_id r = ws \<and> t * 1000 \<le> u_created_at r) rows"

definition select_monthly_usage :: "env \<Rightarrow> world \<Rightarrow> jsval \<Rightarrow> int \<Rightarrow> selected_row list option" where
  "select_monthly_usage E w workspaceId start =
     (case workspaceId of
        JStr s \<Rightarrow>
          if quota_select_fails E then None
          else (case uuid_in s of
                  None \<Rightarrow> None
                | Some ws \<Rightarrow>
                    Some (map select_token_count (rows_of_workspace_since ws start (ai_usage w))))
      | _ \<Rightarrow> None)"

text \<open>The range of an \<^verbatim>\<open>INTEGER\<close> column.\<close>

definition pg_integer :: "int \<Rightarrow> bool" where
  "pg_integer n = (- 2147483648 \<le> n \<and> n \<le> 2147483647)"

text \<open>
  What a nullable \<^verbatim>\<open>UUID\<close> column accepts: null, or a string in the syntax of the type;
  \<open>None\<close> is a rejection.
\<close>

fun uuid_column :: "jsval \<Rightarrow> uuid option option" where
  "uuid_column JNull = Some None"
| "uuid_column (JStr s) = (case uuid_in s of None \<Rightarrow> None | Some v \<Rightarrow> Some (Some v))"
| "uuid_column v = None"

text \<open>The foreign keys: the row with this id exists.\<close>

definition profile_exists :: "world \<Rightarrow> uuid \<Rightarrow> bool" where
  "profile_exists w uid = (uid \<in> set (profiles w))"

definition conversation_exists :: "world \<Rightarrow> uuid \<Rightarrow> bool" where
  "conversation_exists w cid = (cid \<in> set (map c_id (conversations w)))"

text \<open>
  Lines 194 to 203: the insert into \<^verbatim>\<open>ai_usage\<close>. It appends one row, or fails and
  appends nothing: on a storage error, on a value a column's type rejects
  (\<^verbatim>\<open>workspace_id UUID NOT NULL\<close>, \<^verbatim>\<open>user_id UUID\<close>, \<^verbatim>\<open>conversation_id UUID\<close>, the
  \<^verbatim>\<open>INTEGER\<close> columns), on a broken foreign key (\<^verbatim>\<open>user_id\<close> to \<^verbatim>\<open>profiles\<close>,
  \<^verbatim>\<open>conversation_id\<close> to \<^verbatim>\<open>conversations\<close>), or on a violated \<^verbatim>\<open>CHECK\<close>
  (\<^verbatim>\<open>token_count > 0\<close>, \<^verbatim>\<open>cost_estimate >= 0\<close>).
\<close>

definition usage_row_of ::
  "env \<Rightarrow> world \<Rightarrow> jsval \<Rightarrow> string \<Rightarrow> jsval \<Rightarrow> int \<Rightarrow> rat \<Rightarrow> int \<Rightarrow> int \<Rightarrow> usage_row option" where
  "usage_row_of E w workspaceId userId conversation tokensUsed ce pt ct =
     (case workspaceId of
        JStr s \<Rightarrow>
          (case (uuid_in s, uuid_in userId, uuid_column conversation) of
             (Some ws, Some uid, Some cid) \<Rightarrow>
               if usage_insert_fails E
                  \<or> \<not> profile_exists w uid
                  \<or> (case cid of None \<Rightarrow> False | Some c \<Rightarrow> \<not> conversation_exists w c)
                  \<or> \<not> pg_integer tokensUsed \<or> \<not> pg_integer pt \<or> \<not> pg_integer ct
                  \<or> \<not> 0 < tokensUsed \<or> \<not> 0 \<le> ce
               then None
               else Some
                 \<lparr>u_id = usage_new_id E, u_workspace_id = ws, u_user_id = Some uid,
                  u_conversation_id = cid, u_token_count = tokensUsed, u_prompt_tokens = pt,
                  u_completion_tokens = ct, u_cost_estimate = ce,
                  u_model = ''gpt-3.5-turbo'', u_created_at = usage_now E\<rparr>
           | _ \<Rightarrow> None)
      | _ \<Rightarrow> None)"

definition insert_usage ::
  "env \<Rightarrow> world \<Rightarrow> jsval \<Rightarrow> string \<Rightarrow> jsval \<Rightarrow> int \<Rightarrow> rat \<Rightarrow> int \<Rightarrow> int \<Rightarrow> world option" where
  "insert_usage E w workspaceId userId conversation tokensUsed ce pt ct =
     (case usage_row_of E w workspaceId userId conversation tokensUsed ce pt ct of
        None \<Rightarrow> None
      | Some row \<Rightarrow> Some (w\<lparr>ai_usage := ai_usage w @ [row]\<rparr>))"

text \<open>
  Lines 212 to 220: the insert into \<^verbatim>\<open>conversation_messages\<close>, whose
  \<^verbatim>\<open>conversation_id\<close> is \<^verbatim>\<open>UUID NOT NULL REFERENCES conversations(id)\<close>. It fails on a
  storage error, on a \<open>conversationId\<close> that is no \<^verbatim>\<open>UUID\<close> or names no conversation,
  and on a token count outside \<^verbatim>\<open>INTEGER\<close>.
\<close>

definition message_row_of ::
  "env \<Rightarrow> world \<Rightarrow> jsval \<Rightarrow> string \<Rightarrow> int \<Rightarrow> message_row option" where
  "message_row_of E w conversationId assistantMessage tokensUsed =
     (case conversationId of
        JStr s \<Rightarrow>
          (case uuid_in s of
             Some cid \<Rightarrow>
               if message_insert_fails E \<or> \<not> conversation_exists w cid
                  \<or> \<not> pg_integer tokensUsed
               then None
               else Some
                 \<lparr>m_id = message_new_id E, m_conversation_id = cid, m_role = ''assistant'',
                  m_content = assistantMessage, m_tokens_used = tokensUsed,
                  m_model = ''gpt-3.5-turbo'', m_created_at = message_now E\<rparr>
           | None \<Rightarrow> None)
      | _ \<Rightarrow> None)"

text \<open>
  The trigger \<^verbatim>\<open>update_conversation_on_message\<close>: after the insert of a message, the
  conversation gets the time of the insert as \<^verbatim>\<open>updated_at\<close> and \<^verbatim>\<open>last_message_at\<close>.
\<close>

definition update_conversation_timestamp :: "uuid \<Rightarrow> int \<Rightarrow> conversation_row \<Rightarrow> conversation_row" where
  "update_conversation_timestamp cid now c =
     (if c_id c = cid then c\<lparr>c_last_message_at := now, c_updated_at := now\<rparr> else c)"

definition insert_message :: "env \<Rightarrow> world \<Rightarrow> jsval \<Rightarrow> string \<Rightarrow> int \<Rightarrow> world option" where
  "insert_message E w conversationId assistantMessage tokensUsed =
     (case message_row_of E w conversationId assistantMessage tokensUsed of
        None \<Rightarrow> None
      | Some row \<Rightarrow>
          Some (w\<lparr>conversation_messages := conversation_messages w @ [row],
                 conversations :=
                   map (update_conversation_timestamp (m_conversation_id row) (m_created_at row))
                     (conversations w)\<rparr>))"

subsection \<open>The handler\<close>

text \<open>
  The handler of \<^verbatim>\<open>serve\<close>, cut at the comments of the source; each part ends in a
  \<^verbatim>\<open>return\<close>, a \<^verbatim>\<open>throw\<close> or the next part.
\<close>

text \<open>Lines 186 to 242: record the usage, save the message, respond.\<close>

definition record_and_respond ::
  "env \<Rightarrow> world \<Rightarrow> user \<Rightarrow> jsval \<Rightarrow> jsval \<Rightarrow> int \<Rightarrow> completion \<Rightarrow> outcome \<times> world" where
  "record_and_respond E w u conversationId workspaceId totalTokens data =
     (let assistantMessage = content data;
          tokensUsed = total_tokens data;
          ce = costEstimate tokensUsed;
          w1 = (case insert_usage E w workspaceId (user_id u)
                       (if truthy conversationId then conversationId else JNull)
                       tokensUsed ce (prompt_tokens data) (completion_tokens data) of
                  Some w' \<Rightarrow> w'
                | None \<Rightarrow> log_error ''Failed to log usage:'' w);
          w2 = (if truthy conversationId
                then (case insert_message E w1 conversationId assistantMessage tokensUsed of
                        Some w' \<Rightarrow> w'
                      | None \<Rightarrow> log_error ''Failed to save message:'' w1)
                else w1)
      in (Returned \<lparr>status = 200,
            body = ChatReply assistantMessage
              \<lparr>tokens = tokensUsed, cost = ce, monthlyTotal = totalTokens + tokensUsed,
               monthlyLimit = 1000000\<rparr>\<rparr>, w2))"

text \<open>Line 177: \<^verbatim>\<open>error.error?.message || "Unknown error"\<close>, for \<open>e\<close> the value of \<^verbatim>\<open>error.error\<close>.\<close>

definition error_details :: "jsval \<Rightarrow> jsval" where
  "error_details e =
     (let m = js_get_opt e ''message'' in if truthy m then m else JStr ''Unknown error'')"

text \<open>Lines 152 to 184: one call to the provider.\<close>

definition call_openai ::
  "env \<Rightarrow> world \<Rightarrow> user \<Rightarrow> jsval \<Rightarrow> jsval \<Rightarrow> jsval \<Rightarrow> int \<Rightarrow> outcome \<times> world" where
  "call_openai E w u messages conversationId workspaceId totalTokens =
     (let w1 = w\<lparr>openai_calls := openai_calls w @ [messages]\<rparr>
      in case openai E of
           FetchRejects msg \<Rightarrow> (Threw msg, w1)
         | NotOk st b \<Rightarrow>
             (case b of
                Inl msg \<Rightarrow> (Threw msg, w1)
              | Inr error \<Rightarrow>
                  (let w2 = log_error ''OpenAI API error:'' w1
                   in case js_get error ''error'' of
                        Inl msg \<Rightarrow> (Threw msg, w2)
                      | Inr e \<Rightarrow>
                          (new_Response (OpenAIError ''OpenAI API error'' (error_details e)) st,
                           w2)))
         | Ok b \<Rightarrow>
             (case b of
                OkNotJson msg \<Rightarrow> (Threw msg, w1)
              | OkMalformed msg \<Rightarrow> (Threw msg, w1)
              | Completion data \<Rightarrow>
                  record_and_respond E w1 u conversationId workspaceId totalTokens data))"

text \<open>\<^verbatim>\<open>row.token_count || 0\<close>.\<close>

definition token_count_or_0 :: "selected_row \<Rightarrow> int" where
  "token_count_or_0 row =
     (case sel_token_count row of None \<Rightarrow> 0 | Some n \<Rightarrow> if n = 0 then 0 else n)"

text \<open>Lines 135 and 136: \<^verbatim>\<open>monthlyUsage?.reduce(...) || 0\<close>.\<close>

definition totalTokens_of :: "selected_row list option \<Rightarrow> int" where
  "totalTokens_of monthlyUsage =
     (case monthlyUsage of
        None \<Rightarrow> 0
      | Some rows \<Rightarrow> foldl (\<lambda>sum row. sum + token_count_or_0 row) 0 rows)"

text \<open>Lines 120 to 150: the monthly quota.\<close>

definition check_quota ::
  "env \<Rightarrow> world \<Rightarrow> user \<Rightarrow> jsval \<Rightarrow> jsval \<Rightarrow> jsval \<Rightarrow> outcome \<times> world" where
  "check_quota E w u messages conversationId workspaceId =
     (let monthlyUsage = select_monthly_usage E w workspaceId (startOfMonth E);
          w1 = (if monthlyUsage = None then log_error ''Quota check error:'' w else w);
          totalTokens = totalTokens_of monthlyUsage
      in if totalTokens > 1000000
         then (Returned \<lparr>status = 429,
                 body = QuotaExceeded ''Monthly AI quota exceeded (1M tokens)'' totalTokens 1000000\<rparr>,
               w1)
         else call_openai E w1 u messages conversationId workspaceId totalTokens)"

text \<open>Lines 106 to 111: the \<^verbatim>\<open>retryAfter\<close> of the rate-limit body.\<close>

definition retryAfter :: "env \<Rightarrow> selected_row \<Rightarrow> jsnum" where
  "retryAfter E first_row =
     js_minus (Num 3600)
       (js_floor_div (js_minus (Num (now_retry E)) (date_getTime (sel_created_at first_row))) 1000)"

text \<open>Lines 89 to 118: the hourly rate limit.\<close>

definition check_rate ::
  "env \<Rightarrow> world \<Rightarrow> user \<Rightarrow> jsval \<Rightarrow> jsval \<Rightarrow> jsval \<Rightarrow> outcome \<times> world" where
  "check_rate E w u messages conversationId workspaceId =
     (let oneHourAgo = now_rate E - 60 * 60 * 1000;
          recentRequests = select_recent_requests E w (user_id u) oneHourAgo;
          w1 = (if recentRequests = None then log_error ''Rate limit check error:'' w else w);
          requestCount = (case recentRequests of None \<Rightarrow> 0 | Some rows \<Rightarrow> length rows)
      in if requestCount \<ge> 20
         then (case recentRequests of
                 Some (first_row # rest) \<Rightarrow>
                   (Returned \<lparr>status = 429,
                      body = RateLimited ''Rate limit exceeded. Maximum 20 requests per hour.''
                               (json_number (retryAfter E first_row))\<rparr>, w1)
               | _ \<Rightarrow> (Threw ''Cannot read properties of undefined (reading created_at)'', w1))
         else check_quota E w1 u messages conversationId workspaceId)"

text \<open>Lines 73 to 77: the three properties destructured from the body.\<close>

definition body_messages :: "jsval \<Rightarrow> jsval" where
  "body_messages b = js_get_opt b ''messages''"

definition body_conversationId :: "jsval \<Rightarrow> jsval" where
  "body_conversationId b = js_get_opt b ''conversationId''"

definition body_workspaceId :: "jsval \<Rightarrow> jsval" where
  "body_workspaceId b =
     (if js_get_opt b ''workspaceId'' = JUndefined
      then JStr ''00000000-0000-0000-0000-000000000001''
      else js_get_opt b ''workspaceId'')"

text \<open>Lines 71 to 87: the request body.\<close>

definition parse_body :: "env \<Rightarrow> world \<Rightarrow> user \<Rightarrow> request \<Rightarrow> outcome \<times> world" where
  "parse_body E w u req =
     (case json req of
        Inl msg \<Rightarrow> (Threw msg, w)
      | Inr b \<Rightarrow>
          if b = JNull \<or> b = JUndefined
          then (Threw ''Cannot destructure property messages of body as it is null.'', w)
          else
            (let messages = body_messages b;
                 conversationId = body_conversationId b;
                 workspaceId = body_workspaceId b
             in if \<not> truthy messages \<or> \<not> isArray messages
                then (Returned \<lparr>status = 400, body = ErrorOnly ''Invalid messages format''\<rparr>, w)
                else check_rate E w u messages conversationId workspaceId))"

text \<open>Lines 42 to 69: the credential.\<close>

definition verify_user :: "env \<Rightarrow> world \<Rightarrow> request \<Rightarrow> outcome \<times> world" where
  "verify_user E w req =
     (case Authorization req of
        None \<Rightarrow> (Returned \<lparr>status = 401, body = ErrorOnly ''Missing authorization header''\<rparr>, w)
      | Some authHeader \<Rightarrow>
          if authHeader = []
          then (Returned \<lparr>status = 401, body = ErrorOnly ''Missing authorization header''\<rparr>, w)
          else
            (case getUser E (remove_first ''Bearer '' authHeader) of
               None \<Rightarrow>
                 (Returned \<lparr>status = 401, body = ErrorOnly ''Invalid authorization token''\<rparr>, w)
             | Some u \<Rightarrow> parse_body E w u req))"

text \<open>
  Lines 30 to 40: the body of \<^verbatim>\<open>try\<close>. \<^verbatim>\<open>SUPABASE_URL\<close> and
  \<^verbatim>\<open>SUPABASE_SERVICE_ROLE_KEY\<close> are taken to be set, so that \<^verbatim>\<open>createClient\<close> returns.
\<close>

definition try_block :: "env \<Rightarrow> world \<Rightarrow> request \<Rightarrow> outcome \<times> world" where
  "try_block E w req =
     (case OPENAI_API_KEY E of
        None \<Rightarrow> (Threw ''OpenAI API key not configured'', w)
      | Some openaiApiKey \<Rightarrow>
          if openaiApiKey = [] then (Threw ''OpenAI API key not configured'', w)
          else verify_user E w req)"

text \<open>Lines 24 to 256: the handler, with the \<^verbatim>\<open>catch\<close> of lines 243 to 255.\<close>

definition catch_error :: "outcome \<times> world \<Rightarrow> response \<times> world" where
  "catch_error ow =
     (case ow of
        (Returned r, w') \<Rightarrow> (r, w')
      | (Threw msg, w') \<Rightarrow>
          (\<lparr>status = 500, body = InternalError ''Internal server error'' msg\<rparr>,
           log_error ''Edge function error:'' w'))"

definition handler :: "env \<Rightarrow> world \<Rightarrow> request \<Rightarrow> response \<times> world" where
  "handler E w req =
     (if req_method req = ''OPTIONS'' then (\<lparr>status = 200, body = Text ''ok''\<rparr>, w)
      else catch_error (try_block E w req))"

subsection \<open>Terms of the properties\<close>

text \<open>
  The request gets past lines 26 to 69: it is no preflight, the key is configured, and
  the identity service resolves the credential to \<open>u\<close>.
\<close>

definition admitted :: "env \<Rightarrow> request \<Rightarrow> user \<Rightarrow> bool" where
  "admitted E req u =
     (req_method req \<noteq> ''OPTIONS''
      \<and> (case OPENAI_API_KEY E of None \<Rightarrow> False | Some k \<Rightarrow> k \<noteq> [])
      \<and> (case Authorization req of
            None \<Rightarrow> False
          | Some h \<Rightarrow> h \<noteq> [] \<and> getUser E (remove_first ''Bearer '' h) = Some u))"

text \<open>The body parses to \<open>b\<close>, a value that can be destructured (lines 72 to 77).\<close>

definition carries :: "request \<Rightarrow> jsval \<Rightarrow> bool" where
  "carries req b = (json req = Inr b \<and> b \<noteq> JNull \<and> b \<noteq> JUndefined)"

text \<open>
  \<open>request_count\<close> and \<open>tokens_used\<close> in the words of the specification: the number of the
  user's usage events created in the trailing 60 minutes, and the sum of the token counts
  of the tenant's usage events since the start of the month.
\<close>

definition request_count :: "env \<Rightarrow> world \<Rightarrow> user \<Rightarrow> nat" where
  "request_count E w u =
     (case uuid_in (user_id u) of
        None \<Rightarrow> 0
      | Some uid \<Rightarrow>
          length (rows_of_user_since uid (now_rate E - 60 * 60 * 1000) (ai_usage w)))"

definition tokens_used :: "env \<Rightarrow> world \<Rightarrow> string \<Rightarrow> int" where
  "tokens_used E w s =
     (case uuid_in s of
        None \<Rightarrow> 0
      | Some ws \<Rightarrow>
          sum_list (map u_token_count (rows_of_workspace_since ws (startOfMonth E) (ai_usage w))))"

text \<open>The two reads answer with rows: storage works and the identifier is a \<^verbatim>\<open>UUID\<close>.\<close>

definition rate_read_ok :: "env \<Rightarrow> user \<Rightarrow> bool" where
  "rate_read_ok E u = (\<not> rate_select_fails E \<and> uuid_in (user_id u) \<noteq> None)"

definition quota_read_ok :: "env \<Rightarrow> jsval \<Rightarrow> bool" where
  "quota_read_ok E workspaceId =
     (\<not> quota_select_fails E
      \<and> (case workspaceId of JStr s \<Rightarrow> uuid_in s \<noteq> None | _ \<Rightarrow> False))"

text \<open>The conditions of lines 102 and 139, negated: the request goes on.\<close>

definition rate_passes :: "env \<Rightarrow> world \<Rightarrow> user \<Rightarrow> bool" where
  "rate_passes E w u =
     (case select_recent_requests E w (user_id u) (now_rate E - 60 * 60 * 1000) of
        None \<Rightarrow> True
      | Some rows \<Rightarrow> length rows < 20)"

definition totalTokens :: "env \<Rightarrow> world \<Rightarrow> jsval \<Rightarrow> int" where
  "totalTokens E w workspaceId =
     totalTokens_of (select_monthly_usage E w workspaceId (startOfMonth E))"

definition quota_passes :: "env \<Rightarrow> world \<Rightarrow> jsval \<Rightarrow> bool" where
  "quota_passes E w workspaceId = (totalTokens E w workspaceId \<le> 1000000)"

text \<open>The request gets as far as the rate check, the quota check, the provider call.\<close>

definition reaches_rate_check :: "env \<Rightarrow> request \<Rightarrow> user \<Rightarrow> jsval \<Rightarrow> bool" where
  "reaches_rate_check E req u b =
     (admitted E req u \<and> carries req b \<and> isArray (body_messages b))"

definition reaches_quota_check :: "env \<Rightarrow> world \<Rightarrow> request \<Rightarrow> user \<Rightarrow> jsval \<Rightarrow> bool" where
  "reaches_quota_check E w req u b = (reaches_rate_check E req u b \<and> rate_passes E w u)"

definition reaches_openai :: "env \<Rightarrow> world \<Rightarrow> request \<Rightarrow> user \<Rightarrow> jsval \<Rightarrow> bool" where
  "reaches_openai E w req u b =
     (reaches_quota_check E w req u b \<and> quota_passes E w (body_workspaceId b))"

text \<open>The world after both checks: the tables as before, a console line for each failed read.\<close>

definition after_rate_check :: "env \<Rightarrow> world \<Rightarrow> user \<Rightarrow> world" where
  "after_rate_check E w u =
     (if rate_read_ok E u then w else log_error ''Rate limit check error:'' w)"

definition after_checks :: "env \<Rightarrow> world \<Rightarrow> user \<Rightarrow> jsval \<Rightarrow> world" where
  "after_checks E w u workspaceId =
     (if quota_read_ok E workspaceId then after_rate_check E w u
      else log_error ''Quota check error:'' (after_rate_check E w u))"

text \<open>
  The rows the two inserts write for a request with body \<open>b\<close> that the provider answers
  with \<open>d\<close>; \<open>None\<close> when the insert fails.
\<close>

definition usage_written ::
  "env \<Rightarrow> world \<Rightarrow> user \<Rightarrow> jsval \<Rightarrow> completion \<Rightarrow> usage_row option" where
  "usage_written E w u b d =
     usage_row_of E w (body_workspaceId b) (user_id u)
       (if truthy (body_conversationId b) then body_conversationId b else JNull)
       (total_tokens d) (costEstimate (total_tokens d)) (prompt_tokens d) (completion_tokens d)"

definition message_written ::
  "env \<Rightarrow> world \<Rightarrow> jsval \<Rightarrow> completion \<Rightarrow> message_row option" where
  "message_written E w b d =
     message_row_of E w (body_conversationId b) (content d) (total_tokens d)"

text \<open>The 200 response of lines 228 to 242 for a completion \<open>d\<close>.\<close>

definition chat_reply :: "env \<Rightarrow> world \<Rightarrow> jsval \<Rightarrow> completion \<Rightarrow> response" where
  "chat_reply E w b d =
     \<lparr>status = 200,
      body = ChatReply (content d)
        \<lparr>tokens = total_tokens d, cost = costEstimate (total_tokens d),
         monthlyTotal = totalTokens E w (body_workspaceId b) + total_tokens d,
         monthlyLimit = 1000000\<rparr>\<rparr>"

subsection \<open>Concrete requests\<close>

definition alice :: user where
  "alice = \<lparr>user_id = ''7a1c2d3e-0000-4000-8000-00000000a11c''\<rparr>"

definition hello :: jsval where
  "hello = JArr [JObj [(''role'', JStr ''user''), (''content'', JStr ''Hello'')]]"

definition req_hello :: request where
  "req_hello =
     \<lparr>req_method = ''POST'', Authorization = Some ''Bearer token-alice'',
      json = Inr (JObj [(''messages'', hello)])\<rparr>"

definition req_empty_messages :: request where
  "req_empty_messages = req_hello\<lparr>json := Inr (JObj [(''messages'', JArr [])])\<rparr>"

definition req_no_messages :: request where
  "req_no_messages = req_hello\<lparr>json := Inr (JObj [])\<rparr>"

definition req_conversation :: request where
  "req_conversation = req_hello\<lparr>json := Inr (JObj [(''messages'', hello),
     (''conversationId'', JStr ''c0000000-0000-4000-8000-000000000001'')])\<rparr>"

text \<open>A \<open>conversationId\<close> that is no \<^verbatim>\<open>UUID\<close>; the default workspace in another spelling.\<close>

definition req_chat1 :: request where
  "req_chat1 = req_hello\<lparr>json := Inr (JObj [(''messages'', hello),
     (''conversationId'', JStr ''chat-1'')])\<rparr>"

definition req_not_uuid :: request where
  "req_not_uuid = req_hello\<lparr>json := Inr (JObj [(''messages'', hello),
     (''workspaceId'', JStr ''not-a-uuid'')])\<rparr>"

definition req_other_spelling :: request where
  "req_other_spelling = req_hello\<lparr>json := Inr (JObj [(''messages'', hello),
     (''workspaceId'', JStr ''00000000000000000000000000000001'')])\<rparr>"

definition reply :: completion where
  "reply = \<lparr>content = ''Hi there'', prompt_tokens = 20, completion_tokens = 30, total_tokens = 50\<rparr>"

text \<open>
  14 November 2023, 23:13:20 UTC; the month starts on 1 November, 00:00 UTC. The provider
  answers with \<open>reply\<close> and storage works.
\<close>

definition env0 :: env where
  "env0 =
     \<lparr>OPENAI_API_KEY = Some ''sk-test'',
      getUser = (\<lambda>t. if t = ''token-alice'' then Some alice else None),
      now_rate = 1700003600000, now_retry = 1700003600040, startOfMonth = 1698796800000,
      rate_select_fails = False, quota_select_fails = False,
      openai = Ok (Completion reply),
      usage_insert_fails = False, usage_new_id = ''e0000000-0000-4000-8000-000000000001'',
      usage_now = 1700003601000000,
      message_insert_fails = False, message_new_id = ''f0000000-0000-4000-8000-000000000001'',
      message_now = 1700003601500000\<rparr>"

text \<open>Alice has a profile and one conversation; nothing is recorded yet.\<close>

definition world0 :: world where
  "world0 =
     \<lparr>ai_usage = [], conversation_messages = [],
      conversations =
        [\<lparr>c_id = ''c0000000-0000-4000-8000-000000000001'',
          c_last_message_at = 1700003500000000, c_updated_at = 1700003500000000\<rparr>],
      profiles = [''7a1c2d3e-0000-4000-8000-00000000a11c''],
      console_error = [], openai_calls = []\<rparr>"

text \<open>A usage event of Alice in the default workspace, \<open>n\<close> tokens, created at \<open>t\<close>.\<close>

definition event :: "int \<Rightarrow> int \<Rightarrow> usage_row" where
  "event n t =
     \<lparr>u_id = ''e0000000-0000-4000-8000-000000000000'',
      u_workspace_id = ''00000000-0000-0000-0000-000000000001'',
      u_user_id = Some (user_id alice), u_conversation_id = None, u_token_count = n,
      u_prompt_tokens = 0, u_completion_tokens = n, u_cost_estimate = costEstimate n,
      u_model = ''gpt-3.5-turbo'', u_created_at = t\<rparr>"

text \<open>Twenty events of Alice, ten minutes old.\<close>

definition world20 :: world where
  "world20 = world0\<lparr>ai_usage := replicate 20 (event 100 1700003000000000)\<rparr>"

text \<open>The workspace has used exactly 1,000,000 tokens this month; 1,000,049 tokens.\<close>

definition world_at_limit :: world where
  "world_at_limit = world0\<lparr>ai_usage := [event 1000000 1700003000000000]\<rparr>"

definition world_over_limit :: world where
  "world_over_limit =
     world0\<lparr>ai_usage := [event 999999 1700002000000000, event 50 1700003000000000]\<rparr>"

definition env_usage_insert_fails :: env where
  "env_usage_insert_fails = env0\<lparr>usage_insert_fails := True\<rparr>"

definition env_message_insert_fails :: env where
  "env_message_insert_fails = env0\<lparr>message_insert_fails := True\<rparr>"

definition env_rate_select_fails :: env where
  "env_rate_select_fails = env0\<lparr>rate_select_fails := True\<rparr>"

definition env_quota_select_fails :: env where
  "env_quota_select_fails = env0\<lparr>quota_select_fails := True\<rparr>"

text \<open>The provider answers 429 with its usual error object.\<close>

definition provider_error :: jsval where
  "provider_error =
     JObj [(''error'', JObj [(''message'', JStr ''Rate limit reached for requests''),
                             (''type'', JStr ''requests'')])]"

definition env_provider_429 :: env where
  "env_provider_429 = env0\<lparr>openai := NotOk 429 (Inr provider_error)\<rparr>"

text \<open>The body of the 200 response of line 228.\<close>

fun is_ChatReply :: "resp_body \<Rightarrow> bool" where
  "is_ChatReply (ChatReply m us) = True"
| "is_ChatReply b = False"

fun is_RateLimited :: "resp_body \<Rightarrow> bool" where
  "is_RateLimited (RateLimited e r) = True"
| "is_RateLimited b = False"

fun is_QuotaExceeded :: "resp_body \<Rightarrow> bool" where
  "is_QuotaExceeded (QuotaExceeded e c l) = True"
| "is_QuotaExceeded b = False"

fun replied :: "outcome \<Rightarrow> bool" where
  "replied (Returned r) = is_ChatReply (body r)"
| "replied (Threw msg) = False"

text \<open>
  What one request does to the ledger: answered with the 200 reply, it appends one row, or
  none and a console line; answered otherwise, it leaves the ledger as it was.
\<close>

definition ledger_effect :: "world \<Rightarrow> bool \<Rightarrow> world \<Rightarrow> bool" where
  "ledger_effect w is_reply w' =
     (if is_reply
      then (\<exists>row. ai_usage w' = ai_usage w @ [row])
           \<or> (ai_usage w' = ai_usage w \<and> ''Failed to log usage:'' \<in> set (console_error w'))
      else ai_usage w' = ai_usage w)"

section \<open>Rounding\<close>

text \<open>
  \<open>ilog2\<close> is the exponent of a positive rational, so \<open>fl\<close> moves a number by at most
  half a unit in the last of 53 places.
\<close>

lemma bitlen_pos: "0 < n \<Longrightarrow> 1 \<le> bitlen n"
  by (simp add: bitlen_alt_def)

lemma ilog2_ge1:
  assumes "1 \<le> x"
  shows "2 powi ilog2 x \<le> x" and "x < 2 powi (ilog2 x + 1)"
proof -
  define n where "n = \<lfloor>x\<rfloor>"
  have n: "0 < n" using assms by (simp add: n_def)
  from bitlen_bounds [OF n] have lo: "2 ^ nat (bitlen n - 1) \<le> n" and hi: "n < 2 ^ nat (bitlen n)"
    by simp_all
  have k: "1 \<le> bitlen n" by (rule bitlen_pos [OF n])
  have e: "ilog2 x = bitlen n - 1" using assms by (simp add: ilog2_def n_def)
  have "(2::rat) powi (bitlen n - 1) = of_int (2 ^ nat (bitlen n - 1))"
    using k by (simp add: power_int_def)
  also have "\<dots> \<le> of_int n" using lo by (simp only: of_int_le_iff)
  also have "\<dots> \<le> x" by (simp add: n_def)
  finally show "2 powi ilog2 x \<le> x" by (simp add: e)
  have "x < of_int (n + 1)" using floor_correct [of x] by (simp add: n_def)
  also have "\<dots> \<le> of_int (2 ^ nat (bitlen n))" using hi by (simp only: of_int_le_iff)
  also have "\<dots> = (2::rat) powi (bitlen n)" using k by (simp add: power_int_def)
  finally show "x < 2 powi (ilog2 x + 1)" by (simp add: e)
qed

lemma ilog2_lt1:
  assumes "0 < x" and "x < 1"
  shows "2 powi ilog2 x \<le> x" and "x < 2 powi (ilog2 x + 1)"
proof -
  define y where "y = 1 / x"
  define m where "m = \<lceil>y\<rceil> - 1"
  have y: "1 < y" using assms by (simp add: y_def)
  have m: "0 < m" using y by (simp add: m_def less_ceiling_iff)
  have my: "of_int m < y" by (simp add: m_def) linarith
  have ym: "y \<le> of_int (m + 1)" by (simp add: m_def)
  from bitlen_bounds [OF m] have lo: "2 ^ nat (bitlen m - 1) \<le> m" and hi: "m < 2 ^ nat (bitlen m)"
    by simp_all
  have k: "1 \<le> bitlen m" by (rule bitlen_pos [OF m])
  have e: "ilog2 x = - bitlen m" using assms by (simp add: ilog2_def m_def y_def)
  have "y \<le> of_int (2 ^ nat (bitlen m))"
    using ym hi by (meson of_int_le_iff order_trans zless_imp_add1_zle)
  then have "y \<le> 2 ^ nat (bitlen m)" by simp
  then have "1 / 2 ^ nat (bitlen m) \<le> x"
    using assms by (simp add: y_def field_simps)
  moreover have "(2::rat) powi (- bitlen m) = 1 / 2 ^ nat (bitlen m)"
    using k by (simp add: power_int_def field_simps)
  ultimately show "2 powi ilog2 x \<le> x" by (simp add: e)
  have "(2::rat) ^ nat (bitlen m - 1) \<le> of_int m" using lo by simp
  with my have "2 ^ nat (bitlen m - 1) < y" by linarith
  then have "x < 1 / 2 ^ nat (bitlen m - 1)"
    using assms by (simp add: y_def field_simps)
  moreover have "(2::rat) powi (- bitlen m + 1) = 1 / 2 ^ nat (bitlen m - 1)"
    using k by (simp add: power_int_def field_simps)
  ultimately show "x < 2 powi (ilog2 x + 1)" by (simp add: e)
qed

lemma ilog2_bounds:
  assumes "0 < x"
  shows "2 powi ilog2 x \<le> x" and "x < 2 powi (ilog2 x + 1)"
  using assms ilog2_ge1 [of x] ilog2_lt1 [of x] by (cases "1 \<le> x"; simp)+

lemma round_half_even_error: "\<bar>of_int (round_half_even y) - y\<bar> \<le> 1 / 2"
proof -
  define r where "r = y - of_int \<lfloor>y\<rfloor>"
  have r: "0 \<le> r" "r < 1" using floor_correct [of y] by (simp_all add: r_def)
  have y: "y = of_int \<lfloor>y\<rfloor> + r" by (simp add: r_def)
  have "\<bar>of_int (round_half_even y) - (of_int \<lfloor>y\<rfloor> + r)\<bar> \<le> 1 / 2"
    using r unfolding round_half_even_def Let_def r_def [symmetric]
    by (auto simp: abs_le_iff)
  with y show ?thesis by simp
qed

lemma fl_error: "\<bar>fl x - x\<bar> \<le> \<bar>x\<bar> / 2 ^ 53"
proof (cases "x = 0")
  case True
  then show ?thesis by (simp add: fl_def)
next
  case False
  define e where "e = ilog2 \<bar>x\<bar>"
  define u :: rat where "u = 2 powi (e - 52)"
  have u: "0 < u" by (simp add: u_def)
  from False have "0 < \<bar>x\<bar>" by simp
  from ilog2_bounds(1) [OF this] have lo: "2 powi e \<le> \<bar>x\<bar>" by (simp add: e_def)
  have fl: "fl x = of_int (round_half_even (x / u)) * u"
    using False by (simp add: fl_def Let_def u_def e_def)
  have "fl x - x = (of_int (round_half_even (x / u)) - x / u) * u"
    using u by (simp add: fl field_simps)
  then have "\<bar>fl x - x\<bar> = \<bar>of_int (round_half_even (x / u)) - x / u\<bar> * u"
    using u by (simp add: abs_mult)
  also have "\<dots> \<le> 1 / 2 * u"
    using round_half_even_error [of "x / u"] u by (intro mult_right_mono) simp_all
  also have "\<dots> = 2 powi e / 2 ^ 53"
    by (simp add: u_def power_int_diff)
  also have "\<dots> \<le> \<bar>x\<bar> / 2 ^ 53"
    using lo by (simp add: divide_right_mono)
  finally show ?thesis .
qed

lemma approximates_fl:
  assumes "approximates a x r" and "0 \<le> r"
  shows "approximates (fl a) x (r + 1 / 2 ^ 53 + r / 2 ^ 53)"
proof -
  from assms have ax: "\<bar>a - x\<bar> \<le> r * \<bar>x\<bar>" by (simp add: approximates_def)
  have "\<bar>a\<bar> \<le> \<bar>x\<bar> + \<bar>a - x\<bar>" by linarith
  with ax have a: "\<bar>a\<bar> \<le> \<bar>x\<bar> + r * \<bar>x\<bar>" by linarith
  have "\<bar>fl a - x\<bar> \<le> \<bar>fl a - a\<bar> + \<bar>a - x\<bar>" by linarith
  also have "\<dots> \<le> \<bar>a\<bar> / 2 ^ 53 + r * \<bar>x\<bar>"
    using fl_error [of a] ax by linarith
  also have "\<dots> \<le> (\<bar>x\<bar> + r * \<bar>x\<bar>) / 2 ^ 53 + r * \<bar>x\<bar>"
    using a by (simp add: divide_right_mono)
  also have "\<dots> = (r + 1 / 2 ^ 53 + r / 2 ^ 53) * \<bar>x\<bar>"
    by (simp add: field_simps)
  finally show ?thesis by (simp add: approximates_def)
qed

lemma approximates_mult:
  assumes "approximates a x r" and "approximates b y s" and "0 \<le> r" and "0 \<le> s"
  shows "approximates (a * b) (x * y) (r + s + r * s)"
proof -
  from assms have ax: "\<bar>a - x\<bar> \<le> r * \<bar>x\<bar>" and b: "\<bar>b - y\<bar> \<le> s * \<bar>y\<bar>"
    by (simp_all add: approximates_def)
  have "\<bar>a\<bar> \<le> \<bar>x\<bar> + \<bar>a - x\<bar>" by linarith
  with ax have a: "\<bar>a\<bar> \<le> \<bar>x\<bar> + r * \<bar>x\<bar>" by linarith
  have "a * b - x * y = a * (b - y) + (a - x) * y" by (simp add: algebra_simps)
  then have "\<bar>a * b - x * y\<bar> \<le> \<bar>a\<bar> * \<bar>b - y\<bar> + \<bar>a - x\<bar> * \<bar>y\<bar>"
    by (metis abs_mult abs_triangle_ineq)
  also have "\<dots> \<le> (\<bar>x\<bar> + r * \<bar>x\<bar>) * (s * \<bar>y\<bar>) + (r * \<bar>x\<bar>) * \<bar>y\<bar>"
    using a b ax assms(3,4)
    by (intro add_mono mult_mono) simp_all
  also have "\<dots> = (r + s + r * s) * \<bar>x * y\<bar>"
    by (simp add: algebra_simps abs_mult)
  finally show ?thesis by (simp add: approximates_def)
qed

lemma approximates_divide:
  "approximates a x r \<Longrightarrow> approximates (a / c) (x / c) r"
proof -
  assume "approximates a x r"
  then have "\<bar>a - x\<bar> \<le> r * \<bar>x\<bar>" by (simp add: approximates_def)
  then have "\<bar>a - x\<bar> / \<bar>c\<bar> \<le> r * \<bar>x\<bar> / \<bar>c\<bar>" by (simp add: divide_right_mono)
  moreover have "a / c - x / c = (a - x) / c" by (simp add: diff_divide_distrib)
  ultimately show ?thesis by (simp add: approximates_def)
qed

lemma approximates_weaken:
  "approximates a x r \<Longrightarrow> r \<le> s \<Longrightarrow> approximates a x s"
  unfolding approximates_def
  by (meson abs_ge_zero mult_right_mono order_trans)

lemma approximates_refl: "approximates x x 0"
  by (simp add: approximates_def)



lemma costEstimate_error:
  "approximates (costEstimate t) (of_int t * 2 / 1000000) (1 / 2 ^ 50)"
proof -
  let ?e = "1 / 2 ^ 53 :: rat"
  have "approximates (fl (of_int t)) (of_int t) (0 + 1 / 2 ^ 53 + 0 / 2 ^ 53)"
    by (rule approximates_fl [OF approximates_refl]) simp
  then have "approximates (fl (of_int t) / 1000) (of_int t / 1000) ?e"
    by (simp add: approximates_divide)
  then have q: "approximates (fl (fl (of_int t) / 1000)) (of_int t / 1000)
      (?e + 1 / 2 ^ 53 + ?e / 2 ^ 53)"
    by (rule approximates_fl) simp
  have "approximates (fl (2 / 1000)) (2 / 1000) (0 + 1 / 2 ^ 53 + 0 / 2 ^ 53)"
    by (rule approximates_fl [OF approximates_refl]) simp
  then have d: "approximates (fl (2 / 1000)) (2 / 1000) ?e"
    by simp
  have "approximates (fl (fl (of_int t) / 1000) * fl (2 / 1000)) (of_int t / 1000 * (2 / 1000))
      ((?e + 1 / 2 ^ 53 + ?e / 2 ^ 53) + ?e + (?e + 1 / 2 ^ 53 + ?e / 2 ^ 53) * ?e)"
    by (rule approximates_mult [OF q d]) simp_all
  then have "approximates (costEstimate t) (of_int t / 1000 * (2 / 1000))
      (((?e + 1 / 2 ^ 53 + ?e / 2 ^ 53) + ?e + (?e + 1 / 2 ^ 53 + ?e / 2 ^ 53) * ?e)
        + 1 / 2 ^ 53
        + ((?e + 1 / 2 ^ 53 + ?e / 2 ^ 53) + ?e + (?e + 1 / 2 ^ 53 + ?e / 2 ^ 53) * ?e) / 2 ^ 53)"
    unfolding costEstimate_def by (rule approximates_fl) simp
  then have "approximates (costEstimate t) (of_int t / 1000 * (2 / 1000)) (1 / 2 ^ 50)"
    by (rule approximates_weaken) simp
  then show ?thesis by simp
qed

lemma costEstimate_nonneg:
  assumes "0 \<le> t"
  shows "0 \<le> costEstimate t"
proof -
  define c :: rat where "c = of_int t * 2 / 1000000"
  have c: "0 \<le> c" using assms by (simp add: c_def)
  from costEstimate_error [of t] have "\<bar>costEstimate t - c\<bar> \<le> 1 / 2 ^ 50 * \<bar>c\<bar>"
    unfolding approximates_def c_def .
  moreover have "1 / 2 ^ 50 * \<bar>c\<bar> \<le> c" using c by simp
  ultimately show ?thesis by linarith
qed

text \<open>The values of the cost on 1, 4 and 5 tokens, and the double sum of the first two.\<close>

lemma fl_0_002: "fl (2 / 1000) = 1152921504606847 / 576460752303423488"
  by code_simp

lemma costEstimate_1: "costEstimate 1 = 4722366482869645 / 2361183241434822606848"
  unfolding costEstimate_def fl_0_002 by code_simp

lemma costEstimate_4: "costEstimate 4 = 4722366482869645 / 590295810358705651712"
  unfolding costEstimate_def fl_0_002 by code_simp

lemma costEstimate_5: "costEstimate 5 = 5902958103587057 / 590295810358705651712"
  unfolding costEstimate_def fl_0_002 by code_simp

lemma js_add_1_4:
  "js_add (4722366482869645 / 2361183241434822606848) (4722366482869645 / 590295810358705651712)
     = 368934881474191 / 36893488147419103232"
  unfolding js_add_def by code_simp

section \<open>The path of a request\<close>

lemma log_error_tables [simp]:
  "ai_usage (log_error l w) = ai_usage w"
  "conversation_messages (log_error l w) = conversation_messages w"
  "conversations (log_error l w) = conversations w"
  "profiles (log_error l w) = profiles w"
  "openai_calls (log_error l w) = openai_calls w"
  "console_error (log_error l w) = console_error w @ [l]"
  by (simp_all add: log_error_def)

lemma handler_admitted:
  "admitted E req u \<Longrightarrow> handler E w req = catch_error (parse_body E w u req)"
  by (auto simp: admitted_def handler_def try_block_def verify_user_def split: option.splits)

lemma parse_body_array:
  "carries req b \<Longrightarrow> isArray (body_messages b) \<Longrightarrow>
   parse_body E w u req =
     check_rate E w u (body_messages b) (body_conversationId b) (body_workspaceId b)"
  by (cases "body_messages b") (auto simp: carries_def parse_body_def Let_def)

lemma parse_body_no_array:
  "carries req b \<Longrightarrow> \<not> isArray (body_messages b) \<Longrightarrow>
   parse_body E w u req =
     (Returned \<lparr>status = 400, body = ErrorOnly ''Invalid messages format''\<rparr>, w)"
  by (auto simp: carries_def parse_body_def Let_def)

lemma handler_to_check_rate:
  assumes "reaches_rate_check E req u b"
  shows "handler E w req =
    catch_error (check_rate E w u (body_messages b) (body_conversationId b) (body_workspaceId b))"
proof -
  from assms have a: "admitted E req u" and c: "carries req b" and m: "isArray (body_messages b)"
    by (simp_all add: reaches_rate_check_def)
  show ?thesis
    by (simp only: handler_admitted [OF a] parse_body_array [OF c m])
qed

subsection \<open>The rate check\<close>

lemma retryAfter_select_id: "retryAfter E (select_id r) = NaN"
  by (simp add: retryAfter_def select_id_def)

lemma select_recent_requests_failed:
  "\<not> rate_read_ok E u \<Longrightarrow> select_recent_requests E w (user_id u) t = None"
  by (auto simp: rate_read_ok_def select_recent_requests_def)

lemma select_recent_requests_read:
  "rate_read_ok E u \<Longrightarrow>
   \<exists>uid. uuid_in (user_id u) = Some uid
     \<and> select_recent_requests E w (user_id u) t =
         Some (map select_id (rows_of_user_since uid t (ai_usage w)))"
  by (auto simp: rate_read_ok_def select_recent_requests_def)

lemma rate_passes_iff:
  "rate_passes E w u \<longleftrightarrow> \<not> rate_read_ok E u \<or> request_count E w u < 20"
  by (auto simp: rate_passes_def select_recent_requests_def request_count_def rate_read_ok_def
      split: option.splits)

lemma request_count_read_ok:
  "\<not> rate_select_fails E \<Longrightarrow> 0 < request_count E w u \<Longrightarrow> rate_read_ok E u"
  by (auto simp: rate_read_ok_def request_count_def split: option.splits)

lemma check_rate_limited:
  assumes "\<not> rate_passes E w u"
  shows "check_rate E w u ms cid wid =
     (Returned \<lparr>status = 429,
        body = RateLimited ''Rate limit exceeded. Maximum 20 requests per hour.'' None\<rparr>, w)"
proof -
  from assms have ok: "rate_read_ok E u" and many: "20 \<le> request_count E w u"
    by (simp_all add: rate_passes_iff)
  from select_recent_requests_read [OF ok, of w "now_rate E - 3600000"]
  obtain uid where uid: "uuid_in (user_id u) = Some uid"
    and sel: "select_recent_requests E w (user_id u) (now_rate E - 3600000) =
      Some (map select_id (rows_of_user_since uid (now_rate E - 3600000) (ai_usage w)))"
    by blast
  from many uid have len: "20 \<le> length (rows_of_user_since uid (now_rate E - 3600000) (ai_usage w))"
    by (simp add: request_count_def)
  then obtain r rs where rows: "rows_of_user_since uid (now_rate E - 3600000) (ai_usage w) = r # rs"
    by (cases "rows_of_user_since uid (now_rate E - 3600000) (ai_usage w)") auto
  from len show ?thesis
    by (simp add: check_rate_def Let_def sel rows retryAfter_select_id)
qed

lemma check_rate_passes:
  assumes "rate_passes E w u"
  shows "check_rate E w u ms cid wid = check_quota E (after_rate_check E w u) u ms cid wid"
proof (cases "rate_read_ok E u")
  case False
  then show ?thesis
    by (simp add: check_rate_def Let_def select_recent_requests_failed after_rate_check_def)
next
  case True
  from select_recent_requests_read [OF True, of w "now_rate E - 3600000"]
  obtain uid where uid: "uuid_in (user_id u) = Some uid"
    and sel: "select_recent_requests E w (user_id u) (now_rate E - 3600000) =
      Some (map select_id (rows_of_user_since uid (now_rate E - 3600000) (ai_usage w)))"
    by blast
  from assms True uid have "length (rows_of_user_since uid (now_rate E - 3600000) (ai_usage w)) < 20"
    by (simp add: rate_passes_iff request_count_def)
  with True show ?thesis
    by (simp add: check_rate_def Let_def sel after_rate_check_def)
qed

subsection \<open>The quota check\<close>

lemma foldl_token_counts:
  "foldl (\<lambda>sum row. sum + token_count_or_0 row) a (map select_token_count rows)
     = a + sum_list (map u_token_count rows)"
  by (induction rows arbitrary: a) (auto simp: token_count_or_0_def select_token_count_def)

lemma select_monthly_usage_None:
  "select_monthly_usage E w wid s = None \<longleftrightarrow> \<not> quota_read_ok E wid"
  by (auto simp: select_monthly_usage_def quota_read_ok_def split: jsval.splits option.splits)

lemma totalTokens_read:
  "quota_read_ok E (JStr s) \<Longrightarrow> totalTokens E w (JStr s) = tokens_used E w s"
  by (auto simp: totalTokens_def totalTokens_of_def select_monthly_usage_def tokens_used_def
      quota_read_ok_def foldl_token_counts)

lemma totalTokens_failed:
  "\<not> quota_read_ok E wid \<Longrightarrow> totalTokens E w wid = 0"
  using select_monthly_usage_None [of E w wid "startOfMonth E"]
  by (simp add: totalTokens_def totalTokens_of_def)

lemma tokens_used_read_ok:
  "\<not> quota_select_fails E \<Longrightarrow> 0 < tokens_used E w s \<Longrightarrow> quota_read_ok E (JStr s)"
  by (auto simp: quota_read_ok_def tokens_used_def split: option.splits)

lemma select_monthly_usage_after_rate [simp]:
  "select_monthly_usage E (after_rate_check E w u) wid s = select_monthly_usage E w wid s"
  by (simp add: select_monthly_usage_def after_rate_check_def
      split: jsval.splits option.splits)

lemma quota_passes_read:
  "quota_read_ok E (JStr s) \<Longrightarrow>
   quota_passes E w (JStr s) \<longleftrightarrow> tokens_used E w s \<le> 1000000"
  by (simp add: quota_passes_def totalTokens_read)

lemma quota_passes_failed:
  "\<not> quota_read_ok E wid \<Longrightarrow> quota_passes E w wid"
  by (simp add: quota_passes_def totalTokens_failed)

lemma quota_exceeded_read_ok:
  "\<not> quota_passes E w wid \<Longrightarrow> quota_read_ok E wid"
  using quota_passes_failed by blast

lemma check_quota_exceeded:
  "\<not> quota_passes E w wid \<Longrightarrow>
   check_quota E (after_rate_check E w u) u ms cid wid =
     (Returned \<lparr>status = 429,
        body = QuotaExceeded ''Monthly AI quota exceeded (1M tokens)'' (totalTokens E w wid) 1000000\<rparr>,
      after_rate_check E w u)"
  using select_monthly_usage_None [of E w wid "startOfMonth E"] quota_exceeded_read_ok [of E w wid]
  by (auto simp: quota_passes_def check_quota_def Let_def totalTokens_def)

lemma check_quota_passes:
  "quota_passes E w wid \<Longrightarrow>
   check_quota E (after_rate_check E w u) u ms cid wid =
     call_openai E (after_checks E w u wid) u ms cid wid (totalTokens E w wid)"
  using select_monthly_usage_None [of E w wid "startOfMonth E"]
  by (auto simp: quota_passes_def check_quota_def Let_def totalTokens_def after_checks_def)

lemma handler_rate_limited:
  "reaches_rate_check E req u b \<Longrightarrow> \<not> rate_passes E w u \<Longrightarrow>
   handler E w req =
     (\<lparr>status = 429,
       body = RateLimited ''Rate limit exceeded. Maximum 20 requests per hour.'' None\<rparr>, w)"
  using handler_to_check_rate [of E req u b w]
  by (simp add: check_rate_limited catch_error_def)

lemma handler_to_check_quota:
  "reaches_quota_check E w req u b \<Longrightarrow>
   handler E w req =
     catch_error (check_quota E (after_rate_check E w u) u (body_messages b)
       (body_conversationId b) (body_workspaceId b))"
  using handler_to_check_rate [of E req u b w]
  by (simp add: reaches_quota_check_def check_rate_passes)

lemma handler_quota_exceeded:
  "reaches_quota_check E w req u b \<Longrightarrow> \<not> quota_passes E w (body_workspaceId b) \<Longrightarrow>
   handler E w req =
     (\<lparr>status = 429,
       body = QuotaExceeded ''Monthly AI quota exceeded (1M tokens)''
                (totalTokens E w (body_workspaceId b)) 1000000\<rparr>,
      after_rate_check E w u)"
  using handler_to_check_quota [of E w req u b]
  by (simp add: check_quota_exceeded catch_error_def)

lemma handler_reaches_openai:
  "reaches_openai E w req u b \<Longrightarrow>
   handler E w req =
     catch_error (call_openai E (after_checks E w u (body_workspaceId b)) u (body_messages b)
       (body_conversationId b) (body_workspaceId b) (totalTokens E w (body_workspaceId b)))"
  using handler_to_check_quota [of E w req u b]
  by (simp add: reaches_openai_def check_quota_passes)

lemma after_checks_tables [simp]:
  "ai_usage (after_rate_check E w u) = ai_usage w"
  "conversation_messages (after_rate_check E w u) = conversation_messages w"
  "conversations (after_rate_check E w u) = conversations w"
  "profiles (after_rate_check E w u) = profiles w"
  "openai_calls (after_rate_check E w u) = openai_calls w"
  "ai_usage (after_checks E w u wid) = ai_usage w"
  "conversation_messages (after_checks E w u wid) = conversation_messages w"
  "conversations (after_checks E w u wid) = conversations w"
  "profiles (after_checks E w u wid) = profiles w"
  "openai_calls (after_checks E w u wid) = openai_calls w"
  by (simp_all add: after_checks_def after_rate_check_def)

lemma check_rate_not_ErrorOnly:
  "check_rate E w u ms cid wid = (Returned r, w') \<Longrightarrow> body r \<noteq> ErrorOnly e"
  by (auto simp: check_rate_def check_quota_def call_openai_def record_and_respond_def
      new_Response_def Let_def
      split: if_splits option.splits list.splits fetch_result.splits sum.splits ok_body.splits)

section \<open>The provider call and the two inserts\<close>

text \<open>The inserts read only the two referenced tables.\<close>

lemma usage_row_of_frame:
  assumes "profiles w' = profiles w" and "conversations w' = conversations w"
  shows "usage_row_of E w' wid uid c t ce pt ct = usage_row_of E w wid uid c t ce pt ct"
proof -
  from assms have pe: "profile_exists w' = profile_exists w"
    and ce: "conversation_exists w' = conversation_exists w"
    by (simp_all add: fun_eq_iff profile_exists_def conversation_exists_def)
  show ?thesis
    unfolding usage_row_of_def pe ce by (rule refl)
qed

lemma message_row_of_frame:
  assumes "conversations w' = conversations w"
  shows "message_row_of E w' cid m t = message_row_of E w cid m t"
proof -
  from assms have ce: "conversation_exists w' = conversation_exists w"
    by (simp add: fun_eq_iff conversation_exists_def)
  show ?thesis
    unfolding message_row_of_def ce by (rule refl)
qed

lemma usage_row_of_frames [simp]:
  "usage_row_of E (log_error l w) = usage_row_of E w"
  "usage_row_of E (w\<lparr>openai_calls := calls\<rparr>) = usage_row_of E w"
  "usage_row_of E (after_checks E' w u wid) = usage_row_of E w"
  by (intro ext usage_row_of_frame; simp)+

lemma message_row_of_frames [simp]:
  "message_row_of E (log_error l w) = message_row_of E w"
  "message_row_of E (w\<lparr>openai_calls := calls\<rparr>) = message_row_of E w"
  "message_row_of E (w\<lparr>ai_usage := rows\<rparr>) = message_row_of E w"
  "message_row_of E (after_checks E' w u wid) = message_row_of E w"
  by (intro ext message_row_of_frame; simp)+

lemma insert_usage_frame:
  "insert_usage E w wid uid c t ce pt ct = Some w' \<Longrightarrow>
   conversations w' = conversations w \<and> profiles w' = profiles w
   \<and> conversation_messages w' = conversation_messages w \<and> openai_calls w' = openai_calls w
   \<and> console_error w' = console_error w"
  by (auto simp: insert_usage_def split: option.splits)

lemma record_and_respond_fst:
  "fst (record_and_respond E w u cid wid tt d) =
     Returned \<lparr>status = 200,
        body = ChatReply (content d)
          \<lparr>tokens = total_tokens d, cost = costEstimate (total_tokens d),
           monthlyTotal = tt + total_tokens d, monthlyLimit = 1000000\<rparr>\<rparr>"
  by (simp add: record_and_respond_def Let_def)

lemma record_and_respond_ai_usage:
  "ai_usage (snd (record_and_respond E w u cid wid tt d)) =
     ai_usage w @
       (case usage_row_of E w wid (user_id u) (if truthy cid then cid else JNull) (total_tokens d)
               (costEstimate (total_tokens d)) (prompt_tokens d) (completion_tokens d) of
          None \<Rightarrow> [] | Some row \<Rightarrow> [row])"
  by (simp add: record_and_respond_def Let_def insert_usage_def insert_message_def
      split: option.splits)

lemma record_and_respond_messages:
  "conversation_messages (snd (record_and_respond E w u cid wid tt d)) =
     conversation_messages w @
       (if truthy cid
        then (case message_row_of E w cid (content d) (total_tokens d) of
                None \<Rightarrow> [] | Some row \<Rightarrow> [row])
        else [])"
  by (simp add: record_and_respond_def Let_def insert_usage_def insert_message_def
      split: option.splits)

lemma record_and_respond_console:
  "console_error (snd (record_and_respond E w u cid wid tt d)) =
     console_error w @
       (if usage_row_of E w wid (user_id u) (if truthy cid then cid else JNull) (total_tokens d)
               (costEstimate (total_tokens d)) (prompt_tokens d) (completion_tokens d) = None
        then [''Failed to log usage:''] else []) @
       (if truthy cid \<and> message_row_of E w cid (content d) (total_tokens d) = None
        then [''Failed to save message:''] else [])"
  by (auto simp: record_and_respond_def Let_def insert_usage_def insert_message_def
      split: option.splits)

lemma record_and_respond_calls:
  "openai_calls (snd (record_and_respond E w u cid wid tt d)) = openai_calls w"
  by (simp add: record_and_respond_def Let_def insert_usage_def insert_message_def
      split: option.splits)


lemma call_openai_completion:
  "openai E = Ok (Completion d) \<Longrightarrow>
   call_openai E w u ms cid wid tt =
     record_and_respond E (w\<lparr>openai_calls := openai_calls w @ [ms]\<rparr>) u cid wid tt d"
  by (simp add: call_openai_def Let_def)

lemma call_openai_console:
  "set (console_error w) \<subseteq> set (console_error (snd (call_openai E w u ms cid wid tt)))"
  by (auto simp: call_openai_def Let_def record_and_respond_console new_Response_def
      split: fetch_result.splits sum.splits ok_body.splits)

lemma catch_error_Returned:
  "fst ow = Returned r \<Longrightarrow> catch_error ow = (r, snd ow)"
  by (cases ow) (simp add: catch_error_def)

lemma catch_error_console:
  "set (console_error (snd ow)) \<subseteq> set (console_error (snd (catch_error ow)))"
  by (cases ow) (auto simp: catch_error_def split: outcome.splits)

lemma check_quota_console:
  "set (console_error w) \<subseteq> set (console_error (snd (check_quota E w u ms cid wid)))"
  using call_openai_console [of w E u ms cid wid]
    call_openai_console [of "log_error ''Quota check error:'' w" E u ms cid wid]
  by (auto simp: check_quota_def Let_def)

lemma handler_completion:
  assumes "reaches_openai E w req u b" and "openai E = Ok (Completion d)"
  shows "fst (handler E w req) = chat_reply E w b d"
    and "ai_usage (snd (handler E w req)) =
           ai_usage w @ (case usage_written E w u b d of None \<Rightarrow> [] | Some row \<Rightarrow> [row])"
    and "conversation_messages (snd (handler E w req)) =
           conversation_messages w @
             (if truthy (body_conversationId b)
              then (case message_written E w b d of None \<Rightarrow> [] | Some row \<Rightarrow> [row])
              else [])"
    and "console_error (snd (handler E w req)) =
           console_error (after_checks E w u (body_workspaceId b)) @
             (if usage_written E w u b d = None then [''Failed to log usage:''] else []) @
             (if truthy (body_conversationId b) \<and> message_written E w b d = None
              then [''Failed to save message:''] else [])"
    and "openai_calls (snd (handler E w req)) = openai_calls w @ [body_messages b]"
proof -
  let ?a = "after_checks E w u (body_workspaceId b)"
  let ?w = "?a\<lparr>openai_calls := openai_calls ?a @ [body_messages b]\<rparr>"
  let ?rr = "record_and_respond E ?w u (body_conversationId b) (body_workspaceId b)
               (totalTokens E w (body_workspaceId b)) d"
  have h: "handler E w req = catch_error ?rr"
    by (simp add: handler_reaches_openai [OF assms(1)] call_openai_completion [OF assms(2)])
  have "catch_error ?rr = (chat_reply E w b d, snd ?rr)"
    by (rule catch_error_Returned) (simp add: record_and_respond_fst chat_reply_def)
  with h have eq: "handler E w req = (chat_reply E w b d, snd ?rr)"
    by simp
  show "fst (handler E w req) = chat_reply E w b d"
    by (simp add: eq)
  show "ai_usage (snd (handler E w req)) =
           ai_usage w @ (case usage_written E w u b d of None \<Rightarrow> [] | Some row \<Rightarrow> [row])"
    by (simp add: eq record_and_respond_ai_usage usage_written_def)
  show "conversation_messages (snd (handler E w req)) =
           conversation_messages w @
             (if truthy (body_conversationId b)
              then (case message_written E w b d of None \<Rightarrow> [] | Some row \<Rightarrow> [row])
              else [])"
    by (simp add: eq record_and_respond_messages message_written_def)
  show "console_error (snd (handler E w req)) =
           console_error (after_checks E w u (body_workspaceId b)) @
             (if usage_written E w u b d = None then [''Failed to log usage:''] else []) @
             (if truthy (body_conversationId b) \<and> message_written E w b d = None
              then [''Failed to save message:''] else [])"
    by (simp add: eq record_and_respond_console usage_written_def message_written_def)
  show "openai_calls (snd (handler E w req)) = openai_calls w @ [body_messages b]"
    by (simp add: eq record_and_respond_calls)
qed


section \<open>The ledger along every path\<close>

lemma ledger_effect_log [simp]:
  "ledger_effect (log_error l w) r w' = ledger_effect w r w'"
  by (simp add: ledger_effect_def)

lemma ledger_effect_calls [simp]:
  "ledger_effect (w\<lparr>openai_calls := c\<rparr>) r w' = ledger_effect w r w'"
  by (simp add: ledger_effect_def)

lemma ledger_effect_refl [simp]:
  "ledger_effect w False w" "ledger_effect w False (log_error l w)"
  "ledger_effect w False (w\<lparr>openai_calls := c\<rparr>)"
  "ledger_effect w False (log_error l (w\<lparr>openai_calls := c\<rparr>))"
  by (simp_all add: ledger_effect_def)

lemma record_and_respond_ledger:
  "ledger_effect w (replied (fst (record_and_respond E w u cid wid tt d)))
     (snd (record_and_respond E w u cid wid tt d))"
  by (simp add: ledger_effect_def record_and_respond_fst record_and_respond_ai_usage
      record_and_respond_console split: option.splits)

lemma call_openai_ledger:
  "ledger_effect w (replied (fst (call_openai E w u ms cid wid tt)))
     (snd (call_openai E w u ms cid wid tt))"
proof (cases "openai E")
  case (FetchRejects msg)
  then show ?thesis by (simp add: call_openai_def Let_def)
next
  case (NotOk st b)
  then show ?thesis
    by (simp add: call_openai_def Let_def new_Response_def split: sum.splits)
next
  case (Ok b)
  show ?thesis
  proof (cases b)
    case (Completion d)
    with Ok have "call_openai E w u ms cid wid tt =
        record_and_respond E (w\<lparr>openai_calls := openai_calls w @ [ms]\<rparr>) u cid wid tt d"
      by (simp add: call_openai_completion)
    then show ?thesis
      using record_and_respond_ledger [of "w\<lparr>openai_calls := openai_calls w @ [ms]\<rparr>" E u cid wid tt d]
      by simp
  qed (use Ok in \<open>simp_all add: call_openai_def Let_def\<close>)
qed

lemma check_quota_ledger:
  "ledger_effect w (replied (fst (check_quota E w u ms cid wid)))
     (snd (check_quota E w u ms cid wid))"
  using call_openai_ledger [of "log_error ''Quota check error:'' w" E u ms cid wid]
    call_openai_ledger [of w E u ms cid wid]
  by (simp add: check_quota_def Let_def)

lemma check_rate_ledger:
  "ledger_effect w (replied (fst (check_rate E w u ms cid wid)))
     (snd (check_rate E w u ms cid wid))"
  using check_quota_ledger [of "log_error ''Rate limit check error:'' w" E u ms cid wid]
    check_quota_ledger [of w E u ms cid wid]
  by (simp add: check_rate_def Let_def split: option.splits list.splits)

lemma parse_body_ledger:
  "ledger_effect w (replied (fst (parse_body E w u req))) (snd (parse_body E w u req))"
  using check_rate_ledger [of w E u]
  by (simp add: parse_body_def Let_def split: sum.splits)

lemma try_block_ledger:
  "ledger_effect w (replied (fst (try_block E w req))) (snd (try_block E w req))"
  using parse_body_ledger [of w E _ req]
  by (simp add: try_block_def verify_user_def split: option.splits)

lemma catch_error_replied:
  "is_ChatReply (body (fst (catch_error ow))) = replied (fst ow)"
  by (cases ow) (simp add: catch_error_def split: outcome.splits)

lemma catch_error_ledger:
  "ledger_effect w r (snd (catch_error ow)) = ledger_effect w r (snd ow)"
  by (cases ow) (simp add: catch_error_def ledger_effect_def split: outcome.splits)

lemma handler_ledger:
  "ledger_effect w (is_ChatReply (body (fst (handler E w req)))) (snd (handler E w req))"
  using try_block_ledger [of w E req]
  by (simp add: handler_def catch_error_replied catch_error_ledger)

section \<open>Evaluating the concrete requests\<close>

lemmas concrete =
  env0_def world0_def world20_def world_at_limit_def world_over_limit_def
  env_usage_insert_fails_def env_message_insert_fails_def env_rate_select_fails_def
  env_quota_select_fails_def env_provider_429_def alice_def reply_def
  req_hello_def req_empty_messages_def req_no_messages_def req_conversation_def
  req_chat1_def req_not_uuid_def req_other_spelling_def

lemma uuid_in_concrete:
  "uuid_in ''7a1c2d3e-0000-4000-8000-00000000a11c'' = Some ''7a1c2d3e-0000-4000-8000-00000000a11c''"
  "uuid_in ''00000000-0000-0000-0000-000000000001'' = Some ''00000000-0000-0000-0000-000000000001''"
  "uuid_in ''00000000000000000000000000000001'' = Some ''00000000-0000-0000-0000-000000000001''"
  "uuid_in ''c0000000-0000-4000-8000-000000000001'' = Some ''c0000000-0000-4000-8000-000000000001''"
  "uuid_in ''chat-1'' = None"
  "uuid_in ''not-a-uuid'' = None"
  by (simp_all add: uuid_in_def uuid_out_def isxdigit_def tolower_def)

lemma uuid_in_Nil: "uuid_in [] = None"
  by (simp add: uuid_in_def)

lemmas checks =
  reaches_openai_def reaches_quota_check_def reaches_rate_check_def admitted_def carries_def
  rate_passes_iff rate_read_ok_def quota_read_ok_def quota_passes_read quota_passes_failed
  request_count_def tokens_used_def rows_of_user_since_def rows_of_workspace_since_def
  body_messages_def body_workspaceId_def body_conversationId_def sum_list_replicate
  uuid_in_concrete

lemma admitted_hello:
  "admitted env0 req_hello alice"
  "admitted env0 req_empty_messages alice"
  "admitted env0 req_no_messages alice"
  "admitted env0 req_conversation alice"
  by (simp_all add: admitted_def env0_def req_hello_def req_empty_messages_def
      req_no_messages_def req_conversation_def)

lemma carries_hello:
  "carries req_hello (JObj [(''messages'', hello)])"
  "carries req_empty_messages (JObj [(''messages'', JArr [])])"
  "carries req_no_messages (JObj [])"
  by (simp_all add: carries_def req_hello_def req_empty_messages_def req_no_messages_def)

lemma reaches_rate_check_hello:
  "reaches_rate_check env0 req_hello alice (JObj [(''messages'', hello)])"
  by (simp add: reaches_rate_check_def admitted_hello carries_hello body_messages_def)
    (simp add: hello_def)

lemma env0_reads:
  "\<not> rate_select_fails env0" "\<not> quota_select_fails env0"
  "rate_read_ok env0 alice" "\<not> rate_read_ok env_rate_select_fails alice"
  "quota_read_ok env0 (JStr ''00000000-0000-0000-0000-000000000001'')"
  "quota_read_ok env0 (JStr ''00000000000000000000000000000001'')"
  "\<not> quota_read_ok env0 (JStr ''not-a-uuid'')"
  by (simp_all add: concrete rate_read_ok_def quota_read_ok_def uuid_in_concrete)

lemma request_count_world20:
  "request_count env0 world20 alice = 20"
  "request_count env_rate_select_fails world20 alice = 20"
  "request_count env0 world0 alice = 0"
  by (simp_all add: request_count_def concrete rows_of_user_since_def event_def uuid_in_concrete)

lemma env0_openai: "openai env0 = Ok (Completion reply)"
  by (simp add: env0_def)

lemma world0_tables:
  "ai_usage world0 = []" "conversation_messages world0 = []" "openai_calls world0 = []"
  "console_error world0 = []"
  by (simp_all add: world0_def)

lemma costEstimate_50: "0 \<le> costEstimate 50"
  using costEstimate_nonneg [of 50] by simp

lemma reaches_openai_hello:
  "reaches_openai env0 world0 req_hello alice (JObj [(''messages'', hello)])"
  by (simp add: checks concrete) (simp add: hello_def)

lemma reaches_openai_empty_messages:
  "reaches_openai env0 world0 req_empty_messages alice (JObj [(''messages'', JArr [])])"
  by (simp add: checks concrete)

lemma reaches_openai_insert_fails:
  "reaches_openai env_usage_insert_fails world0 req_hello alice (JObj [(''messages'', hello)])"
  by (simp add: checks concrete) (simp add: hello_def)

lemma reaches_openai_at_limit:
  "reaches_openai env0 world_at_limit req_hello alice (JObj [(''messages'', hello)])"
  by (simp add: checks concrete event_def) (simp add: hello_def)


lemma reaches_openai_rate_fails:
  "reaches_openai env_rate_select_fails world20 req_hello alice (JObj [(''messages'', hello)])"
  by (simp add: checks concrete event_def) (simp add: hello_def)

lemma reaches_openai_conversation:
  "reaches_openai env0 world0 req_conversation alice
     (JObj [(''messages'', hello), (''conversationId'', JStr ''c0000000-0000-4000-8000-000000000001'')])"
  by (simp add: checks concrete) (simp add: hello_def)

lemma reaches_openai_chat1:
  "reaches_openai env0 world0 req_chat1 alice
     (JObj [(''messages'', hello), (''conversationId'', JStr ''chat-1'')])"
  by (simp add: checks concrete) (simp add: hello_def)

lemma reaches_openai_not_uuid:
  "reaches_openai env0 world0 req_not_uuid alice
     (JObj [(''messages'', hello), (''workspaceId'', JStr ''not-a-uuid'')])"
  by (simp add: checks concrete) (simp add: hello_def)

lemma reaches_openai_provider_429:
  "reaches_openai env_provider_429 world0 req_hello alice (JObj [(''messages'', hello)])"
  by (simp add: checks concrete) (simp add: hello_def)

lemma reaches_quota_check_concrete:
  "reaches_quota_check env0 world_at_limit req_hello alice (JObj [(''messages'', hello)])"
  "reaches_quota_check env0 world_over_limit req_hello alice (JObj [(''messages'', hello)])"
  "reaches_quota_check env0 world_over_limit req_other_spelling alice
     (JObj [(''messages'', hello), (''workspaceId'', JStr ''00000000000000000000000000000001'')])"
  "reaches_quota_check env0 world0 req_not_uuid alice
     (JObj [(''messages'', hello), (''workspaceId'', JStr ''not-a-uuid'')])"
  by (simp_all add: checks concrete event_def) (simp_all add: hello_def)

lemma tokens_used_concrete:
  "tokens_used env0 world_at_limit ''00000000-0000-0000-0000-000000000001'' = 1000000"
  "tokens_used env0 world_over_limit ''00000000-0000-0000-0000-000000000001'' = 1000049"
  "tokens_used env0 world_over_limit ''00000000000000000000000000000001'' = 1000049"
  "tokens_used env_quota_select_fails world_over_limit ''00000000-0000-0000-0000-000000000001'' = 1000049"
  by (simp_all add: tokens_used_def rows_of_workspace_since_def concrete event_def uuid_in_concrete)

lemma usage_written_empty:
  "usage_written env0 world0 alice (JObj [(''messages'', JArr [])]) reply \<noteq> None"
  using costEstimate_50
  by (simp add: usage_written_def usage_row_of_def profile_exists_def checks concrete
      pg_integer_def)

lemma usage_written_hello:
  "usage_written env0 world0 alice (JObj [(''messages'', hello)]) reply =
     Some \<lparr>u_id = ''e0000000-0000-4000-8000-000000000001'',
           u_workspace_id = ''00000000-0000-0000-0000-000000000001'',
           u_user_id = Some (user_id alice), u_conversation_id = None, u_token_count = 50,
           u_prompt_tokens = 20, u_completion_tokens = 30, u_cost_estimate = costEstimate 50,
           u_model = ''gpt-3.5-turbo'', u_created_at = 1700003601000000\<rparr>"
  using costEstimate_50
  by (simp add: usage_written_def usage_row_of_def profile_exists_def checks concrete
      pg_integer_def)

lemma usage_written_not_uuid:
  "usage_written env0 world0 alice
     (JObj [(''messages'', hello), (''workspaceId'', JStr ''not-a-uuid'')]) reply = None"
  by (simp add: usage_written_def usage_row_of_def checks concrete)

lemma usage_written_insert_fails:
  "usage_written env_usage_insert_fails world0 alice (JObj [(''messages'', hello)]) reply = None"
  "usage_written env_usage_insert_fails world0 alice
     (JObj [(''messages'', hello), (''conversationId'', JStr ''c0000000-0000-4000-8000-000000000001'')])
     reply = None"
  by (simp_all add: usage_written_def usage_row_of_def checks concrete)

lemma message_written_chat1:
  "message_written env0 world0 (JObj [(''messages'', hello), (''conversationId'', JStr ''chat-1'')])
     reply = None"
  by (simp add: message_written_def message_row_of_def checks concrete)

lemma handler_world20:
  "handler env0 world20 req_hello =
     (\<lparr>status = 429,
       body = RateLimited ''Rate limit exceeded. Maximum 20 requests per hour.'' None\<rparr>, world20)"
  using handler_rate_limited [OF reaches_rate_check_hello, of world20]
  by (simp add: rate_passes_iff request_count_world20 env0_reads)

lemma provider_429_openai: "openai env_provider_429 = NotOk 429 (Inr provider_error)"
  by (simp add: env_provider_429_def)

lemma provider_error_error:
  "js_get provider_error ''error'' =
     Inr (JObj [(''message'', JStr ''Rate limit reached for requests''), (''type'', JStr ''requests'')])"
  by (simp add: provider_error_def)

section \<open>Rejections, provider failures and the insert flags\<close>

lemma check_quota_not_RateLimited:
  "fst (check_quota E w u ms cid wid) = Returned r \<Longrightarrow> \<not> is_RateLimited (body r)"
  by (auto simp: check_quota_def call_openai_def record_and_respond_def new_Response_def Let_def
      split: if_splits fetch_result.splits sum.splits ok_body.splits)


lemma catch_error_cases:
  "(\<exists>r. fst ow = Returned r \<and> fst (catch_error ow) = r)
   \<or> (\<exists>msg. fst ow = Threw msg
         \<and> fst (catch_error ow) = \<lparr>status = 500, body = InternalError ''Internal server error'' msg\<rparr>)"
  by (cases ow) (auto simp: catch_error_def split: outcome.splits)

lemma catch_error_tables [simp]:
  "ai_usage (snd (catch_error ow)) = ai_usage (snd ow)"
  "conversation_messages (snd (catch_error ow)) = conversation_messages (snd ow)"
  "openai_calls (snd (catch_error ow)) = openai_calls (snd ow)"
  by (cases ow; simp add: catch_error_def split: outcome.splits)+

lemma insert_flags_admitted [simp]:
  "admitted (E\<lparr>usage_insert_fails := f\<rparr>) req u = admitted E req u"
  "admitted (E\<lparr>message_insert_fails := f\<rparr>) req u = admitted E req u"
  by (simp_all add: admitted_def split: option.splits)

lemma insert_flags_select [simp]:
  "select_monthly_usage (E\<lparr>usage_insert_fails := f\<rparr>) w wid s = select_monthly_usage E w wid s"
  "select_monthly_usage (E\<lparr>message_insert_fails := f\<rparr>) w wid s = select_monthly_usage E w wid s"
  "select_recent_requests (E\<lparr>usage_insert_fails := f\<rparr>) w uid t = select_recent_requests E w uid t"
  "select_recent_requests (E\<lparr>message_insert_fails := f\<rparr>) w uid t = select_recent_requests E w uid t"
  by (simp_all add: select_monthly_usage_def select_recent_requests_def
      split: jsval.splits option.splits)

lemma insert_flags_totalTokens [simp]:
  "totalTokens (E\<lparr>usage_insert_fails := f\<rparr>) w wid = totalTokens E w wid"
  "totalTokens (E\<lparr>message_insert_fails := f\<rparr>) w wid = totalTokens E w wid"
  by (simp_all add: totalTokens_def)

lemma insert_flags_reaches_openai [simp]:
  "reaches_openai (E\<lparr>usage_insert_fails := f\<rparr>) w req u b = reaches_openai E w req u b"
  "reaches_openai (E\<lparr>message_insert_fails := f\<rparr>) w req u b = reaches_openai E w req u b"
  by (simp_all add: reaches_openai_def reaches_quota_check_def reaches_rate_check_def
      rate_passes_def quota_passes_def)

lemma insert_flags_chat_reply [simp]:
  "chat_reply (E\<lparr>usage_insert_fails := f\<rparr>) w b d = chat_reply E w b d"
  "chat_reply (E\<lparr>message_insert_fails := f\<rparr>) w b d = chat_reply E w b d"
  by (simp_all add: chat_reply_def)

lemma reaches_openai_conversation_usage_fails:
  "reaches_openai env_usage_insert_fails world0 req_conversation alice
     (JObj [(''messages'', hello), (''conversationId'', JStr ''c0000000-0000-4000-8000-000000000001'')])"
  using reaches_openai_conversation by (simp add: env_usage_insert_fails_def)


lemma handler_not_RateLimited:
  assumes "reaches_quota_check E w req u b"
  shows "\<not> is_RateLimited (body (fst (handler E w req)))"
proof -
  let ?cq = "check_quota E (after_rate_check E w u) u (body_messages b)
       (body_conversationId b) (body_workspaceId b)"
  have h: "handler E w req = catch_error ?cq"
    by (rule handler_to_check_quota [OF assms])
  from catch_error_cases [of ?cq] show ?thesis
    by (auto simp: h dest: check_quota_not_RateLimited)
qed

lemma new_Response_body:
  "300 \<le> st \<Longrightarrow> st \<le> 599 \<Longrightarrow> st \<noteq> 304 \<Longrightarrow>
   new_Response b st = Returned \<lparr>status = st, body = b\<rparr>"
  by (simp add: new_Response_def)

lemma call_openai_not_ok:
  assumes "openai E = NotOk st (Inr err)" and "js_get err ''error'' = Inr e"
    and "300 \<le> st" and "st \<le> 599" and "st \<noteq> 304"
  shows "call_openai E w u ms cid wid tt =
     (Returned \<lparr>status = st, body = OpenAIError ''OpenAI API error'' (error_details e)\<rparr>,
      log_error ''OpenAI API error:'' (w\<lparr>openai_calls := openai_calls w @ [ms]\<rparr>))"
  using assms by (simp add: call_openai_def Let_def new_Response_body)

text \<open>A console line written before the quota check or the provider call stays.\<close>

lemma logged_before_check_quota:
  "l \<in> set (console_error w) \<Longrightarrow>
   l \<in> set (console_error (snd (catch_error (check_quota E w u ms cid wid))))"
  using check_quota_console [of w E u ms cid wid]
    catch_error_console [of "check_quota E w u ms cid wid"]
  by blast


section \<open>The properties\<close>

text \<open>
  C5. Every rate-limited response should carry a numeric \<^verbatim>\<open>retryAfter\<close> in seconds. The
  handler computes it from \<^verbatim>\<open>recentRequests[0].created_at\<close>, but the query selects only
  the column \<^verbatim>\<open>id\<close>: the property is \<^verbatim>\<open>undefined\<close>, the arithmetic yields \<^verbatim>\<open>NaN\<close>, and
  the body carries \<^verbatim>\<open>retryAfter: null\<close>. This holds for every rate-limited request.
\<close>

theorem rate_limited_retryAfter_null:
  assumes "reaches_rate_check E req u b" and "\<not> rate_select_fails E"
    and "20 \<le> request_count E w u"
  shows "handler E w req =
     (\<lparr>status = 429,
       body = RateLimited ''Rate limit exceeded. Maximum 20 requests per hour.'' None\<rparr>, w)"
proof -
  from assms(2,3) have "rate_read_ok E u"
    by (intro request_count_read_ok [of E w u]) simp_all
  with assms(3) have "\<not> rate_passes E w u"
    by (simp add: rate_passes_iff)
  from handler_rate_limited [OF assms(1) this] show ?thesis .
qed

theorem rate_limited_retryAfter_null_witness:
  "handler env0 world20 req_hello =
     (\<lparr>status = 429,
       body = RateLimited ''Rate limit exceeded. Maximum 20 requests per hour.'' None\<rparr>, world20)"
  using rate_limited_retryAfter_null [OF reaches_rate_check_hello, of world20]
  by (simp add: request_count_world20 env0_reads)

text \<open>
  C6, as stated: a body with \<^verbatim>\<open>messages: []\<close> is answered with 400, without a provider
  call and without a usage event. It is not: an empty array is truthy and an array, so the
  request passes line 79, the provider is called and a usage event is written.
\<close>

theorem empty_messages_counterexample:
  "status (fst (handler env0 world0 req_empty_messages)) = 200
   \<and> openai_calls (snd (handler env0 world0 req_empty_messages)) = [JArr []]
   \<and> length (ai_usage (snd (handler env0 world0 req_empty_messages))) = 1"
  using usage_written_empty
  by (auto simp add: handler_completion [OF reaches_openai_empty_messages env0_openai]
      chat_reply_def world0_tables body_messages_def)

text \<open>
  C6, amended: for an admitted request whose body can be destructured, a \<^verbatim>\<open>messages\<close>
  that is missing or no array is answered with 400 and leaves the world untouched (no
  provider call, no usage event); a \<^verbatim>\<open>messages\<close> that is an array, the empty one
  included, is never answered with that response.
\<close>

theorem invalid_messages_rejected:
  assumes "admitted E req u" and "carries req b"
  shows "(\<not> isArray (body_messages b) \<longrightarrow>
            handler E w req =
              (\<lparr>status = 400, body = ErrorOnly ''Invalid messages format''\<rparr>, w))
       \<and> (isArray (body_messages b) \<longrightarrow>
            fst (handler E w req) \<noteq> \<lparr>status = 400, body = ErrorOnly ''Invalid messages format''\<rparr>)"
proof (intro conjI impI)
  assume "\<not> isArray (body_messages b)"
  with assms show "handler E w req =
      (\<lparr>status = 400, body = ErrorOnly ''Invalid messages format''\<rparr>, w)"
    by (simp add: handler_admitted [of E req u] parse_body_no_array [of req b] catch_error_def)
next
  assume arr: "isArray (body_messages b)"
  let ?cr = "check_rate E w u (body_messages b) (body_conversationId b) (body_workspaceId b)"
  have h: "handler E w req = catch_error ?cr"
    using assms arr by (simp add: handler_to_check_rate [of E req u b] reaches_rate_check_def)
  from catch_error_cases [of ?cr]
  show "fst (handler E w req) \<noteq> \<lparr>status = 400, body = ErrorOnly ''Invalid messages format''\<rparr>"
  proof (elim disjE exE conjE)
    fix r assume "fst ?cr = Returned r" and "fst (catch_error ?cr) = r"
    moreover from this have "body r \<noteq> ErrorOnly ''Invalid messages format''"
      using check_rate_not_ErrorOnly [of E w u _ _ _ r "snd ?cr"] by (metis prod.collapse)
    ultimately show ?thesis using h by auto
  next
    fix msg assume "fst (catch_error ?cr) =
      \<lparr>status = 500, body = InternalError ''Internal server error'' msg\<rparr>"
    then show ?thesis using h by simp
  qed
qed

theorem invalid_messages_rejected_witness:
  "handler env0 world0 req_no_messages =
     (\<lparr>status = 400, body = ErrorOnly ''Invalid messages format''\<rparr>, world0)
   \<and> fst (handler env0 world0 req_empty_messages)
       \<noteq> \<lparr>status = 400, body = ErrorOnly ''Invalid messages format''\<rparr>"
  using invalid_messages_rejected [OF admitted_hello(3) carries_hello(3), of world0]
    invalid_messages_rejected [OF admitted_hello(2) carries_hello(2), of world0]
  by (simp add: body_messages_def)

text \<open>
  C1, as stated: a request whose provider call completes appends exactly one usage event,
  never zero. It can append none: when the insert fails, the handler logs the failure and
  still answers 200.
\<close>

theorem usage_events_counterexample:
  "status (fst (handler env_usage_insert_fails world0 req_hello)) = 200
   \<and> is_ChatReply (body (fst (handler env_usage_insert_fails world0 req_hello)))
   \<and> ai_usage (snd (handler env_usage_insert_fails world0 req_hello)) = []"
  using handler_completion(1,2) [OF reaches_openai_insert_fails, of reply]
  by (simp add: chat_reply_def world0_tables usage_written_insert_fails)
    (simp add: env_usage_insert_fails_def env0_def)


text \<open>
  C1, amended: a request that is not answered with the 200 reply (rejected by the rate
  limit or the quota, failed authentication, a provider error, any other failure) appends
  no usage event; a request answered with the 200 reply appends exactly one usage event, or
  none when the insert fails and the failure is logged; a request that reaches the provider
  and gets a completion is answered with the 200 reply and appends the row of the insert
  if the insert succeeds. Never more than one row is appended. The insert fails, among
  others, for a \<open>workspaceId\<close> that is no \<^verbatim>\<open>UUID\<close>: such a request passes the quota check
  (its read fails too), is answered, and leaves no usage event.
\<close>

theorem usage_events_appended:
  "(\<not> is_ChatReply (body (fst (handler E w req))) \<longrightarrow>
      ai_usage (snd (handler E w req)) = ai_usage w)
   \<and> (is_ChatReply (body (fst (handler E w req))) \<longrightarrow>
        (\<exists>row. ai_usage (snd (handler E w req)) = ai_usage w @ [row])
        \<or> (ai_usage (snd (handler E w req)) = ai_usage w
            \<and> ''Failed to log usage:'' \<in> set (console_error (snd (handler E w req)))))
   \<and> (reaches_openai E w req u b \<and> openai E = Ok (Completion d) \<longrightarrow>
        is_ChatReply (body (fst (handler E w req)))
        \<and> ai_usage (snd (handler E w req)) =
            ai_usage w @ (case usage_written E w u b d of None \<Rightarrow> [] | Some row \<Rightarrow> [row]))"
  using handler_ledger [of w E req]
  by (auto simp: ledger_effect_def handler_completion chat_reply_def split: if_splits)

theorem usage_events_appended_witness:
  "ai_usage (snd (handler env0 world0 req_hello)) =
     [\<lparr>u_id = ''e0000000-0000-4000-8000-000000000001'',
       u_workspace_id = ''00000000-0000-0000-0000-000000000001'',
       u_user_id = Some (user_id alice), u_conversation_id = None, u_token_count = 50,
       u_prompt_tokens = 20, u_completion_tokens = 30, u_cost_estimate = costEstimate 50,
       u_model = ''gpt-3.5-turbo'', u_created_at = 1700003601000000\<rparr>]
   \<and> ai_usage (snd (handler env0 world20 req_hello)) = ai_usage world20
   \<and> is_ChatReply (body (fst (handler env0 world0 req_not_uuid)))
   \<and> ai_usage (snd (handler env0 world0 req_not_uuid)) = []"
  using usage_events_appended [of env0 world0 req_hello alice "JObj [(''messages'', hello)]" reply]
    usage_events_appended [of env0 world20 req_hello]
    usage_events_appended [of env0 world0 req_not_uuid alice
      "JObj [(''messages'', hello), (''workspaceId'', JStr ''not-a-uuid'')]" reply]
    handler_world20
  by (simp add: reaches_openai_hello reaches_openai_not_uuid env0_openai usage_written_hello
      usage_written_not_uuid world0_tables)

text \<open>
  C7. A request whose provider call succeeds but whose usage insert fails is still
  answered with the 200 reply (the generated message and the usage snapshot), the same
  response as with a working insert; the failure goes to the console, and the ledger is
  unchanged.
\<close>

theorem usage_write_failure_swallowed:
  assumes "reaches_openai E w req u b" and "openai E = Ok (Completion d)"
    and "usage_written E w u b d = None"
  shows "fst (handler E w req) =
           \<lparr>status = 200,
            body = ChatReply (content d)
              \<lparr>tokens = total_tokens d, cost = costEstimate (total_tokens d),
               monthlyTotal = totalTokens E w (body_workspaceId b) + total_tokens d,
               monthlyLimit = 1000000\<rparr>\<rparr>
       \<and> fst (handler E w req) = fst (handler (E\<lparr>usage_insert_fails := False\<rparr>) w req)
       \<and> ''Failed to log usage:'' \<in> set (console_error (snd (handler E w req)))
       \<and> ai_usage (snd (handler E w req)) = ai_usage w"
proof -
  have "reaches_openai (E\<lparr>usage_insert_fails := False\<rparr>) w req u b"
    and "openai (E\<lparr>usage_insert_fails := False\<rparr>) = Ok (Completion d)"
    using assms by simp_all
  from handler_completion(1) [OF this] handler_completion(1,2,4) [OF assms(1,2)] assms(3)
  show ?thesis
    by (simp add: chat_reply_def)
qed

theorem usage_write_failure_swallowed_witness:
  "fst (handler env_usage_insert_fails world0 req_conversation) =
     \<lparr>status = 200,
      body = ChatReply ''Hi there''
        \<lparr>tokens = 50, cost = costEstimate 50, monthlyTotal = 50, monthlyLimit = 1000000\<rparr>\<rparr>
   \<and> ''Failed to log usage:'' \<in> set (console_error (snd (handler env_usage_insert_fails world0 req_conversation)))
   \<and> ai_usage (snd (handler env_usage_insert_fails world0 req_conversation)) = []"
  using usage_write_failure_swallowed [OF reaches_openai_conversation_usage_fails, of reply]
  by (simp add: usage_written_insert_fails world0_tables)
    (simp add: env_usage_insert_fails_def env0_def reply_def totalTokens_def totalTokens_of_def
      select_monthly_usage_def body_workspaceId_def rows_of_workspace_since_def world0_def
      uuid_in_concrete)

text \<open>
  C10. A request with a \<^verbatim>\<open>conversationId\<close> whose provider call succeeds also inserts a
  row into \<^verbatim>\<open>conversation_messages\<close>, with the role \<^verbatim>\<open>assistant\<close>, the generated
  text, the model name and the tokens used. The insert succeeds exactly when the
  \<^verbatim>\<open>conversationId\<close> is the text of a \<^verbatim>\<open>UUID\<close> that names an existing conversation,
  storage accepts the statement and the token count fits the column; when it fails, the
  failure goes to the console and the 200 response is the same. Without a
  \<^verbatim>\<open>conversationId\<close> (a falsy value, line 211) the table is left as it was.
\<close>

theorem assistant_message_saved:
  assumes "reaches_openai E w req u b" and "openai E = Ok (Completion d)"
  shows "fst (handler E w req) =
           \<lparr>status = 200,
            body = ChatReply (content d)
              \<lparr>tokens = total_tokens d, cost = costEstimate (total_tokens d),
               monthlyTotal = totalTokens E w (body_workspaceId b) + total_tokens d,
               monthlyLimit = 1000000\<rparr>\<rparr>
       \<and> fst (handler (E\<lparr>message_insert_fails := True\<rparr>) w req) = fst (handler E w req)
       \<and> (\<forall>s c. body_conversationId b = JStr s \<and> uuid_in s = Some c
              \<and> conversation_exists w c \<and> \<not> message_insert_fails E
              \<and> pg_integer (total_tokens d) \<longrightarrow>
            conversation_messages (snd (handler E w req)) =
              conversation_messages w @
                [\<lparr>m_id = message_new_id E, m_conversation_id = c, m_role = ''assistant'',
                  m_content = content d, m_tokens_used = total_tokens d,
                  m_model = ''gpt-3.5-turbo'', m_created_at = message_now E\<rparr>])
       \<and> (message_written E w b d = None \<longleftrightarrow>
            \<not> (\<exists>s c. body_conversationId b = JStr s \<and> uuid_in s = Some c
                  \<and> conversation_exists w c \<and> \<not> message_insert_fails E
                  \<and> pg_integer (total_tokens d)))
       \<and> (truthy (body_conversationId b) \<and> message_written E w b d = None \<longrightarrow>
            conversation_messages (snd (handler E w req)) = conversation_messages w
            \<and> ''Failed to save message:'' \<in> set (console_error (snd (handler E w req))))
       \<and> (\<not> truthy (body_conversationId b) \<longrightarrow>
            conversation_messages (snd (handler E w req)) = conversation_messages w)"
proof -
  have "reaches_openai (E\<lparr>message_insert_fails := True\<rparr>) w req u b"
    and "openai (E\<lparr>message_insert_fails := True\<rparr>) = Ok (Completion d)"
    using assms by simp_all
  note other = handler_completion(1) [OF this]
  note this_one = handler_completion(1,3,4) [OF assms]
  have nonempty: "truthy (JStr s)" if "uuid_in s = Some c" for s c
    using that uuid_in_Nil by (cases s) auto
  have written: "message_written E w b d = None \<longleftrightarrow>
      \<not> (\<exists>s c. body_conversationId b = JStr s \<and> uuid_in s = Some c
            \<and> conversation_exists w c \<and> \<not> message_insert_fails E
            \<and> pg_integer (total_tokens d))"
    by (auto simp: message_written_def message_row_of_def split: jsval.splits option.splits)
  have row: "message_written E w b d =
      Some \<lparr>m_id = message_new_id E, m_conversation_id = c, m_role = ''assistant'',
            m_content = content d, m_tokens_used = total_tokens d,
            m_model = ''gpt-3.5-turbo'', m_created_at = message_now E\<rparr>"
    if "body_conversationId b = JStr s" "uuid_in s = Some c" "conversation_exists w c"
      "\<not> message_insert_fails E" "pg_integer (total_tokens d)" for s c
    using that by (simp add: message_written_def message_row_of_def)
  show ?thesis
  proof (intro conjI allI impI)
    show "fst (handler E w req) =
        \<lparr>status = 200,
         body = ChatReply (content d)
           \<lparr>tokens = total_tokens d, cost = costEstimate (total_tokens d),
            monthlyTotal = totalTokens E w (body_workspaceId b) + total_tokens d,
            monthlyLimit = 1000000\<rparr>\<rparr>"
      by (simp add: this_one(1) chat_reply_def)
    show "fst (handler (E\<lparr>message_insert_fails := True\<rparr>) w req) = fst (handler E w req)"
      by (simp add: this_one(1) other)
    show "message_written E w b d = None \<longleftrightarrow>
        \<not> (\<exists>s c. body_conversationId b = JStr s \<and> uuid_in s = Some c
              \<and> conversation_exists w c \<and> \<not> message_insert_fails E
              \<and> pg_integer (total_tokens d))"
      by (rule written)
  next
    fix s c
    assume a: "body_conversationId b = JStr s \<and> uuid_in s = Some c
      \<and> conversation_exists w c \<and> \<not> message_insert_fails E \<and> pg_integer (total_tokens d)"
    then have "truthy (body_conversationId b)"
      using nonempty [of s c] by simp
    with a show "conversation_messages (snd (handler E w req)) =
        conversation_messages w @
          [\<lparr>m_id = message_new_id E, m_conversation_id = c, m_role = ''assistant'',
            m_content = content d, m_tokens_used = total_tokens d,
            m_model = ''gpt-3.5-turbo'', m_created_at = message_now E\<rparr>]"
      by (simp add: this_one(2) row [of s c])
  next
    assume a: "truthy (body_conversationId b) \<and> message_written E w b d = None"
    then show "conversation_messages (snd (handler E w req)) = conversation_messages w"
      by (simp add: this_one(2))
    from a show "''Failed to save message:'' \<in> set (console_error (snd (handler E w req)))"
      by (simp add: this_one(3))
  next
    assume "\<not> truthy (body_conversationId b)"
    then show "conversation_messages (snd (handler E w req)) = conversation_messages w"
      by (simp add: this_one(2))
  qed
qed

theorem assistant_message_saved_witness:
  "conversation_messages (snd (handler env0 world0 req_conversation)) =
     [\<lparr>m_id = ''f0000000-0000-4000-8000-000000000001'',
       m_conversation_id = ''c0000000-0000-4000-8000-000000000001'', m_role = ''assistant'',
       m_content = ''Hi there'', m_tokens_used = 50, m_model = ''gpt-3.5-turbo'',
       m_created_at = 1700003601500000\<rparr>]
   \<and> conversation_messages (snd (handler env0 world0 req_hello)) = []
   \<and> conversation_messages (snd (handler env0 world0 req_chat1)) = []
   \<and> ''Failed to save message:'' \<in> set (console_error (snd (handler env0 world0 req_chat1)))"
  using assistant_message_saved [OF reaches_openai_conversation env0_openai]
    assistant_message_saved [OF reaches_openai_hello env0_openai]
    assistant_message_saved [OF reaches_openai_chat1 env0_openai]
  by (simp add: body_conversationId_def world0_tables pg_integer_def message_written_chat1
      uuid_in_concrete)
    (simp add: conversation_exists_def reply_def env0_def world0_def)

text \<open>
  C2, as stated: once the tenant's monthly sum has reached 1,000,000, the next call is
  rejected. With a sum of exactly 1,000,000 the call is not rejected: line 139 tests
  \<^verbatim>\<open>totalTokens > 1000000\<close>.
\<close>

theorem quota_reached_counterexample:
  "tokens_used env0 world_at_limit ''00000000-0000-0000-0000-000000000001'' = 1000000
   \<and> status (fst (handler env0 world_at_limit req_hello)) = 200
   \<and> \<not> is_QuotaExceeded (body (fst (handler env0 world_at_limit req_hello)))
   \<and> openai_calls (snd (handler env0 world_at_limit req_hello)) = [hello]"
  using handler_completion(1,5) [OF reaches_openai_at_limit env0_openai]
  by (simp add: tokens_used_concrete chat_reply_def body_messages_def)
    (simp add: world_at_limit_def world0_def)

text \<open>
  C2, amended: once the tenant's monthly sum exceeds 1,000,000, a request that reaches the
  quota check, and whose quota read succeeds, is rejected with 429 and a body carrying the
  sum and the limit; the provider is not called and no usage event is written.
\<close>

theorem quota_exceeded_rejected:
  assumes "reaches_quota_check E w req u b" and "body_workspaceId b = JStr ws"
    and "\<not> quota_select_fails E" and "1000000 < tokens_used E w ws"
  shows "fst (handler E w req) =
           \<lparr>status = 429,
            body = QuotaExceeded ''Monthly AI quota exceeded (1M tokens)'' (tokens_used E w ws) 1000000\<rparr>
       \<and> openai_calls (snd (handler E w req)) = openai_calls w
       \<and> ai_usage (snd (handler E w req)) = ai_usage w"
proof -
  from assms(3,4) have ok: "quota_read_ok E (JStr ws)"
    by (intro tokens_used_read_ok [of E w ws]) simp_all
  with assms(2,4) have "\<not> quota_passes E w (body_workspaceId b)"
    by (simp add: quota_passes_read)
  from handler_quota_exceeded [OF assms(1) this] assms(2) ok show ?thesis
    by (simp add: totalTokens_read)
qed

theorem quota_exceeded_rejected_witness:
  "fst (handler env0 world_over_limit req_hello) =
     \<lparr>status = 429,
      body = QuotaExceeded ''Monthly AI quota exceeded (1M tokens)'' 1000049 1000000\<rparr>
   \<and> openai_calls (snd (handler env0 world_over_limit req_hello)) = []
   \<and> length (ai_usage (snd (handler env0 world_over_limit req_hello))) = 2"
  using quota_exceeded_rejected [OF reaches_quota_check_concrete(2),
      of "''00000000-0000-0000-0000-000000000001''"]
  by (simp add: tokens_used_concrete env0_reads body_workspaceId_def)
    (simp add: world_over_limit_def world0_def)




text \<open>
  C4, as stated: the rate limiter allows a request if and only if the user has fewer than
  20 usage events in the trailing 60 minutes. When the rate read fails, the handler logs
  the error and goes on with a count of 0: the request is allowed although the user has 20
  events in the window.
\<close>

theorem rate_read_failure_counterexample:
  "request_count env_rate_select_fails world20 alice = 20
   \<and> status (fst (handler env_rate_select_fails world20 req_hello)) = 200
   \<and> \<not> is_RateLimited (body (fst (handler env_rate_select_fails world20 req_hello)))"
  using handler_completion(1) [OF reaches_openai_rate_fails, of reply]
  by (simp add: request_count_world20 chat_reply_def)
    (simp add: env_rate_select_fails_def env0_def)

text \<open>
  C4, amended: for a request that reaches the rate check, when the rate read succeeds
  (storage answers and the user id is the text of a \<^verbatim>\<open>UUID\<close>) the request is allowed,
  that is, handed on unchanged to the quota check, if and only if the user has fewer than
  20 usage events in the trailing 60 minutes; with 20 or more it is rejected with 429 and
  the rate-limit body, and the world is left as it was. When the rate read fails, the
  handler writes \<^verbatim>\<open>Rate limit check error:\<close> to the console and hands the request on
  to the quota check.
\<close>

theorem rate_limit_decision:
  assumes "reaches_rate_check E req u b"
  shows "(rate_read_ok E u \<and> request_count E w u < 20 \<longrightarrow>
            handler E w req =
              catch_error (check_quota E w u (body_messages b) (body_conversationId b)
                (body_workspaceId b))
            \<and> \<not> is_RateLimited (body (fst (handler E w req))))
       \<and> (rate_read_ok E u \<and> 20 \<le> request_count E w u \<longrightarrow>
            status (fst (handler E w req)) = 429
            \<and> is_RateLimited (body (fst (handler E w req)))
            \<and> snd (handler E w req) = w)
       \<and> (\<not> rate_read_ok E u \<longrightarrow>
            handler E w req =
              catch_error (check_quota E (log_error ''Rate limit check error:'' w) u
                (body_messages b) (body_conversationId b) (body_workspaceId b))
            \<and> ''Rate limit check error:'' \<in> set (console_error (snd (handler E w req)))
            \<and> \<not> is_RateLimited (body (fst (handler E w req))))"
proof (intro conjI impI)
  assume a: "rate_read_ok E u \<and> request_count E w u < 20"
  with assms have r: "reaches_quota_check E w req u b"
    by (simp add: reaches_quota_check_def rate_passes_iff)
  from handler_to_check_quota [OF r] a
  show "handler E w req =
      catch_error (check_quota E w u (body_messages b) (body_conversationId b)
        (body_workspaceId b))"
    by (simp add: after_rate_check_def)
  from r show "\<not> is_RateLimited (body (fst (handler E w req)))"
    by (rule handler_not_RateLimited)
next
  assume a: "\<not> rate_read_ok E u"
  with assms have r: "reaches_quota_check E w req u b"
    by (simp add: reaches_quota_check_def rate_passes_iff)
  from handler_to_check_quota [OF r] a
  show h: "handler E w req =
      catch_error (check_quota E (log_error ''Rate limit check error:'' w) u
        (body_messages b) (body_conversationId b) (body_workspaceId b))"
    by (simp add: after_rate_check_def)
  show "''Rate limit check error:'' \<in> set (console_error (snd (handler E w req)))"
    unfolding h by (rule logged_before_check_quota) simp
  from r show "\<not> is_RateLimited (body (fst (handler E w req)))"
    by (rule handler_not_RateLimited)
next
  assume "rate_read_ok E u \<and> 20 \<le> request_count E w u"
  then have "\<not> rate_passes E w u"
    by (simp add: rate_passes_iff)
  from handler_rate_limited [OF assms this]
  show "status (fst (handler E w req)) = 429"
    and "is_RateLimited (body (fst (handler E w req)))"
    and "snd (handler E w req) = w"
    by simp_all
qed

theorem rate_limit_decision_witness:
  "status (fst (handler env0 world20 req_hello)) = 429
   \<and> is_RateLimited (body (fst (handler env0 world20 req_hello)))
   \<and> \<not> is_RateLimited (body (fst (handler env0 world0 req_hello)))
   \<and> ''Rate limit check error:''
       \<in> set (console_error (snd (handler env_rate_select_fails world20 req_hello)))"
proof -
  have r: "reaches_rate_check env_rate_select_fails req_hello alice (JObj [(''messages'', hello)])"
    using reaches_openai_rate_fails by (simp add: reaches_openai_def reaches_quota_check_def)
  have many: "20 \<le> request_count env0 world20 alice"
    and few: "request_count env0 world0 alice < 20"
    by (simp_all add: request_count_world20)
  from rate_limit_decision [OF reaches_rate_check_hello, of world20] env0_reads(3) many
  have "status (fst (handler env0 world20 req_hello)) = 429"
    and "is_RateLimited (body (fst (handler env0 world20 req_hello)))"
    by blast+
  moreover
  from rate_limit_decision [OF reaches_rate_check_hello, of world0] env0_reads(3) few
  have "\<not> is_RateLimited (body (fst (handler env0 world0 req_hello)))"
    by blast
  moreover
  from rate_limit_decision [OF r, of world20] env0_reads(4)
  have "''Rate limit check error:''
      \<in> set (console_error (snd (handler env_rate_select_fails world20 req_hello)))"
    by blast
  ultimately show ?thesis by blast
qed

text \<open>
  C8, as stated: a provider failure is answered with a 5xx status and a body of shape
  \<^verbatim>\<open>{ error, message }\<close>. A provider 429 is answered with 429 and a body of shape
  \<^verbatim>\<open>{ error, details }\<close>: line 180 passes the provider's status on.
\<close>

theorem provider_failure_counterexample:
  "status (fst (handler env_provider_429 world0 req_hello)) = 429
   \<and> body_keys (body (fst (handler env_provider_429 world0 req_hello))) = [''error'', ''details'']"
  using handler_reaches_openai [OF reaches_openai_provider_429]
    call_openai_not_ok [OF provider_429_openai provider_error_error]
  by (simp add: catch_error_def)

text \<open>
  C8, amended: a provider response that is not ok, with a JSON body other than null, is
  answered with the provider's own status and the body
  \<^verbatim>\<open>{ error: "OpenAI API error", details }\<close>, which is neither the rate-limit body nor
  the quota body of the gateway; the error goes to the console and no usage event is
  written.
\<close>

theorem provider_failure_passed_on:
  assumes "reaches_openai E w req u b" and "openai E = NotOk st (Inr err)"
    and "js_get err ''error'' = Inr e" and "300 \<le> st" and "st \<le> 599" and "st \<noteq> 304"
  shows "fst (handler E w req) =
           \<lparr>status = st, body = OpenAIError ''OpenAI API error'' (error_details e)\<rparr>
       \<and> body_keys (body (fst (handler E w req))) = [''error'', ''details'']
       \<and> \<not> is_RateLimited (body (fst (handler E w req)))
       \<and> \<not> is_QuotaExceeded (body (fst (handler E w req)))
       \<and> ai_usage (snd (handler E w req)) = ai_usage w
       \<and> ''OpenAI API error:'' \<in> set (console_error (snd (handler E w req)))"
  by (simp add: handler_reaches_openai [OF assms(1)] call_openai_not_ok [OF assms(2-6)]
      catch_error_def)

theorem provider_failure_passed_on_witness:
  "fst (handler env_provider_429 world0 req_hello) =
     \<lparr>status = 429,
      body = OpenAIError ''OpenAI API error'' (JStr ''Rate limit reached for requests'')\<rparr>
   \<and> ai_usage (snd (handler env_provider_429 world0 req_hello)) = []"
  using provider_failure_passed_on
    [OF reaches_openai_provider_429 provider_429_openai provider_error_error]
  by (simp add: error_details_def world0_tables)

text \<open>
  C9, as stated: the cost of a single-rate model is linear in the token counts, the sum of
  two estimates being equal to the estimate of the summed counts. The handler computes
  \<^verbatim>\<open>(tokensUsed / 1000) * 0.002\<close> in doubles, and the equality fails already for 1 and 4
  tokens, with the exact sum as with the double sum: the two sides differ in the last place.
\<close>

theorem costEstimate_linear_counterexample:
  "costEstimate 1 + costEstimate 4 \<noteq> costEstimate 5
   \<and> js_add (costEstimate 1) (costEstimate 4) = 368934881474191 / 36893488147419103232
   \<and> costEstimate 5 = 5902958103587057 / 590295810358705651712
   \<and> js_add (costEstimate 1) (costEstimate 4) \<noteq> costEstimate 5"
  by (simp add: costEstimate_1 costEstimate_4 costEstimate_5 js_add_1_4)

text \<open>
  C9, amended: the cost is a function of the total token count that the provider reports
  and of nothing else (one model, one rate), and it is linear up to the rounding of double
  arithmetic: for non-negative counts whose sum is below \<open>2 ^ 53\<close> (the integers that
  doubles hold exactly), the double sum of two estimates differs from the estimate of the
  summed count by at most the fraction \<open>1 / 2 ^ 48\<close> of the exact cost
  \<open>(t1 + t2) * 2 / 1000000\<close>.
\<close>

theorem costEstimate_nearly_linear:
  assumes "0 \<le> t1" and "0 \<le> t2" and "t1 + t2 < 2 ^ 53"
  shows "\<bar>js_add (costEstimate t1) (costEstimate t2) - costEstimate (t1 + t2)\<bar>
           \<le> (of_int (t1 + t2) * 2 / 1000000) / 2 ^ 48"
proof -
  define c1 c2 :: rat where "c1 = of_int t1 * 2 / 1000000" and "c2 = of_int t2 * 2 / 1000000"
  have c: "0 \<le> c1" "0 \<le> c2" using assms(1,2) by (simp_all add: c1_def c2_def)
  have c12: "of_int (t1 + t2) * 2 / 1000000 = c1 + c2"
    by (simp add: c1_def c2_def field_simps)
  from costEstimate_error [of t1] have "\<bar>costEstimate t1 - c1\<bar> \<le> 1 / 2 ^ 50 * \<bar>c1\<bar>"
    unfolding approximates_def c1_def .
  with c have e1: "\<bar>costEstimate t1 - c1\<bar> \<le> 1 / 2 ^ 50 * c1"
    by (simp only: abs_of_nonneg)
  from costEstimate_error [of t2] have "\<bar>costEstimate t2 - c2\<bar> \<le> 1 / 2 ^ 50 * \<bar>c2\<bar>"
    unfolding approximates_def c2_def .
  with c have e2: "\<bar>costEstimate t2 - c2\<bar> \<le> 1 / 2 ^ 50 * c2"
    by (simp only: abs_of_nonneg)
  from costEstimate_error [of "t1 + t2"]
  have "\<bar>costEstimate (t1 + t2) - (c1 + c2)\<bar> \<le> 1 / 2 ^ 50 * \<bar>c1 + c2\<bar>"
    unfolding approximates_def c12 .
  with c have e12: "\<bar>costEstimate (t1 + t2) - (c1 + c2)\<bar> \<le> 1 / 2 ^ 50 * (c1 + c2)"
    by simp
  have "\<bar>costEstimate t1 + costEstimate t2 - (c1 + c2)\<bar>
      \<le> \<bar>costEstimate t1 - c1\<bar> + \<bar>costEstimate t2 - c2\<bar>"
    by linarith
  also have "\<dots> \<le> 1 / 2 ^ 50 * c1 + 1 / 2 ^ 50 * c2"
    using e1 e2 by linarith
  also have "\<dots> = 1 / 2 ^ 50 * \<bar>c1 + c2\<bar>"
    using c by (simp add: algebra_simps)
  finally have "\<bar>costEstimate t1 + costEstimate t2 - (c1 + c2)\<bar> \<le> 1 / 2 ^ 50 * \<bar>c1 + c2\<bar>" .
  then have "approximates (costEstimate t1 + costEstimate t2) (c1 + c2) (1 / 2 ^ 50)"
    by (simp add: approximates_def)
  then have "approximates (js_add (costEstimate t1) (costEstimate t2)) (c1 + c2)
      (1 / 2 ^ 50 + 1 / 2 ^ 53 + 1 / 2 ^ 50 / 2 ^ 53)"
    unfolding js_add_def by (rule approximates_fl) simp
  then have s: "\<bar>js_add (costEstimate t1) (costEstimate t2) - (c1 + c2)\<bar>
      \<le> (1 / 2 ^ 50 + 1 / 2 ^ 53 + 1 / 2 ^ 50 / 2 ^ 53) * (c1 + c2)"
    using c by (simp add: approximates_def)
  have "\<bar>js_add (costEstimate t1) (costEstimate t2) - costEstimate (t1 + t2)\<bar>
      \<le> \<bar>js_add (costEstimate t1) (costEstimate t2) - (c1 + c2)\<bar>
        + \<bar>costEstimate (t1 + t2) - (c1 + c2)\<bar>"
    by linarith
  also have "\<dots> \<le> (1 / 2 ^ 50 + 1 / 2 ^ 53 + 1 / 2 ^ 50 / 2 ^ 53) * (c1 + c2)
      + 1 / 2 ^ 50 * (c1 + c2)"
    using s e12 by linarith
  also have "\<dots> \<le> (c1 + c2) / 2 ^ 48"
    using c by (simp add: field_simps)
  finally show ?thesis by (simp only: c12)
qed

theorem costEstimate_nearly_linear_witness:
  "\<bar>js_add (costEstimate 1) (costEstimate 4) - costEstimate 5\<bar> \<le> (5 * 2 / 1000000) / 2 ^ 48"
  using costEstimate_nearly_linear [of 1 4] by simp

end
